theory Spec2Isabelle
  imports Complex_Main
begin

section \<open>Python values used by \<^verbatim>\<open>bqt.py\<close>\<close>

text \<open>
  The exceptions the module can raise, directly or through the libraries it calls.
  \<open>PywinError\<close> stands for \<^verbatim>\<open>pywintypes.error\<close>.
\<close>

datatype py_error =
    NotImplementedError
  | AttributeError
  | TypeError
  | ValueError
  | RuntimeError
  | IndexError
  | ZeroDivisionError
  | PywinError

text \<open>
  \<^verbatim>\<open>str.lower()\<close> on text whose letters are ASCII: the capitals \<open>A\<close> to \<open>Z\<close>
  move to the small letters, every other character stays.
\<close>

definition lower_char :: "char \<Rightarrow> char" where
  "lower_char c =
     (case map_of (zip ''ABCDEFGHIJKLMNOPQRSTUVWXYZ'' ''abcdefghijklmnopqrstuvwxyz'') c of
        None \<Rightarrow> c
      | Some l \<Rightarrow> l)"

definition lower :: "string \<Rightarrow> string" where
  "lower s = map lower_char s"

text \<open>\<^verbatim>\<open>sub in s\<close> for two strings: \<open>sub\<close> occurs in \<open>s\<close> as a contiguous piece.\<close>

fun starts_with :: "string \<Rightarrow> string \<Rightarrow> bool" where
  "starts_with s [] = True"
| "starts_with [] (p # ps) = False"
| "starts_with (c # cs) (p # ps) = (c = p \<and> starts_with cs ps)"

fun contains :: "string \<Rightarrow> string \<Rightarrow> bool" where
  "contains [] sub = (sub = [])"
| "contains (c # cs) sub = (starts_with (c # cs) sub \<or> contains cs sub)"

text \<open>
  \<^verbatim>\<open>os.getenv(name, default)\<close> over the process environment, and the truth value
  Python gives its result in a condition: \<^verbatim>\<open>None\<close> and the empty string are false.
\<close>

type_synonym environ = "string \<rightharpoonup> string"

definition getenv :: "environ \<Rightarrow> string \<Rightarrow> string option" where
  "getenv env name = env name"

definition getenv_default :: "environ \<Rightarrow> string \<Rightarrow> string \<Rightarrow> string" where
  "getenv_default env name d = (case env name of None \<Rightarrow> d | Some v \<Rightarrow> v)"

definition truthy :: "string option \<Rightarrow> bool" where
  "truthy v = (case v of None \<Rightarrow> False | Some s \<Rightarrow> s \<noteq> [])"

subsection \<open>The builtin \<^verbatim>\<open>float\<close> on text\<close>

text \<open>
  A Python float is an IEEE 754 double. A finite one is modelled by the real number it
  denotes (the two zeros are one value: dividing by either raises), with the two
  infinities and not-a-number beside it.

  \<open>round_double\<close> is the rounding that \<^verbatim>\<open>float\<close> and the division apply to the
  exact result: to the nearest double, a tie to the one with an even last bit. The
  doubles from \<open>2 ^ e\<close> up to \<open>2 ^ (e + 1)\<close> are the multiples of \<open>2 ^ (e - 52)\<close>;
  below \<open>2 ^ (- 1022)\<close> they are the multiples of \<open>2 ^ (- 1074)\<close>, so a value of at
  most \<open>2 ^ (- 1075)\<close> rounds to zero; a value that rounds to \<open>2 ^ 1024\<close> or more is
  infinite.
\<close>

datatype pyfloat = Fin real | PosInf | NegInf | NaN

definition pow2 :: "int \<Rightarrow> real" where
  "pow2 k = (if 0 \<le> k then 2 ^ nat k else 1 / 2 ^ nat (- k))"

definition round_half_even :: "real \<Rightarrow> int" where
  "round_half_even x =
     (let f = \<lfloor>x\<rfloor>; d = x - of_int f
      in if d < 1 / 2 then f else if 1 / 2 < d then f + 1 else if even f then f else f + 1)"

definition ulp_exponent :: "real \<Rightarrow> int" where
  "ulp_exponent x = max (\<lfloor>log 2 x\<rfloor> - 52) (- 1074)"

definition round_double :: "real \<Rightarrow> pyfloat" where
  "round_double x =
     (if x = 0 then Fin 0
      else
        (let q = ulp_exponent \<bar>x\<bar>;
             y = of_int (round_half_even (\<bar>x\<bar> / pow2 q)) * pow2 q
         in if 2 ^ 1024 \<le> y then (if x < 0 then NegInf else PosInf)
            else Fin (if x < 0 then - y else y)))"

text \<open>
  \<^verbatim>\<open>float(s)\<close> follows the grammar of the language reference on ASCII text:
  surrounding white space (space, tab, line feed, vertical tab, form feed, carriage
  return) is dropped, then an optional sign, then either \<^verbatim>\<open>inf\<close>,
  \<^verbatim>\<open>infinity\<close>, \<^verbatim>\<open>nan\<close> in any case, or a decimal number with an optional
  exponent, where single underscores may separate digits. The decimal number is rounded
  to the nearest double. Any other text raises \<^verbatim>\<open>ValueError\<close>.
\<close>

definition is_space :: "char \<Rightarrow> bool" where
  "is_space c = (c \<in> set [CHR '' '', CHR 0x09, CHR 0x0A, CHR 0x0B, CHR 0x0C, CHR 0x0D])"

definition strip :: "string \<Rightarrow> string" where
  "strip s = rev (dropWhile is_space (rev (dropWhile is_space s)))"

definition digit_val :: "char \<Rightarrow> nat option" where
  "digit_val c = map_of (zip ''0123456789'' [0, 1, 2, 3, 4, 5, 6, 7, 8, 9]) c"

definition is_digit :: "char \<Rightarrow> bool" where
  "is_digit c = (digit_val c \<noteq> None)"

fun digitpart :: "string \<Rightarrow> bool" where
  "digitpart [] = False"
| "digitpart [c] = is_digit c"
| "digitpart (c # d # cs) =
     (is_digit c \<and> (if d = CHR ''_'' then digitpart cs else digitpart (d # cs)))"

definition digits_value :: "string \<Rightarrow> nat" where
  "digits_value s =
     foldl (\<lambda>a c. case digit_val c of None \<Rightarrow> a | Some d \<Rightarrow> 10 * a + d) 0 s"

definition digits_count :: "string \<Rightarrow> nat" where
  "digits_count s = length (filter is_digit s)"

definition parse_mantissa :: "string \<Rightarrow> real option" where
  "parse_mantissa s =
     (let ip = takeWhile (\<lambda>c. c \<noteq> CHR ''.'') s;
          rest = dropWhile (\<lambda>c. c \<noteq> CHR ''.'') s
      in case rest of
           [] \<Rightarrow> if digitpart ip then Some (real (digits_value ip)) else None
         | _ # fp \<Rightarrow>
             if (ip = [] \<or> digitpart ip) \<and> (fp = [] \<or> digitpart fp) \<and> \<not> (ip = [] \<and> fp = [])
             then Some (real (digits_value ip) + real (digits_value fp) / 10 ^ digits_count fp)
             else None)"

definition parse_exponent :: "string \<Rightarrow> int option" where
  "parse_exponent s =
     (case s of
        [] \<Rightarrow> None
      | c # cs \<Rightarrow>
          if c = CHR ''-'' then (if digitpart cs then Some (- int (digits_value cs)) else None)
          else if c = CHR ''+'' then (if digitpart cs then Some (int (digits_value cs)) else None)
          else if digitpart s then Some (int (digits_value s)) else None)"

definition scale10 :: "real \<Rightarrow> int \<Rightarrow> real" where
  "scale10 m k = (if 0 \<le> k then m * 10 ^ nat k else m / 10 ^ nat (- k))"

definition parse_floatnumber :: "string \<Rightarrow> real option" where
  "parse_floatnumber s =
     (let is_e = (\<lambda>c. c = CHR ''e'' \<or> c = CHR ''E'');
          mant = takeWhile (\<lambda>c. \<not> is_e c) s;
          rest = dropWhile (\<lambda>c. \<not> is_e c) s
      in case parse_mantissa mant of
           None \<Rightarrow> None
         | Some m \<Rightarrow>
             (case rest of
                [] \<Rightarrow> Some m
              | _ # ex \<Rightarrow>
                  (case parse_exponent ex of None \<Rightarrow> None | Some k \<Rightarrow> Some (scale10 m k))))"

definition parse_absfloat :: "string \<Rightarrow> pyfloat option" where
  "parse_absfloat s =
     (if lower s = ''inf'' \<or> lower s = ''infinity'' then Some PosInf
      else if lower s = ''nan'' then Some NaN
      else map_option round_double (parse_floatnumber s))"

definition negate :: "pyfloat \<Rightarrow> pyfloat" where
  "negate v = (case v of Fin x \<Rightarrow> Fin (- x) | PosInf \<Rightarrow> NegInf | NegInf \<Rightarrow> PosInf | NaN \<Rightarrow> NaN)"

text \<open>
  Outside ASCII, \<^verbatim>\<open>float\<close> also takes the decimal digits and the white space of
  other scripts. The model leaves such text out: \<open>py_float\<close> is \<open>None\<close> for it, and
  so is what is computed from it.
\<close>

definition is_ascii :: "string \<Rightarrow> bool" where
  "is_ascii s = list_all (\<lambda>c. \<not> digit7 c) s"

definition py_float :: "string \<Rightarrow> (py_error + pyfloat) option" where
  "py_float s =
     (if is_ascii s then
        Some (let t = strip s;
                  r = (case t of
                         [] \<Rightarrow> None
                       | c # cs \<Rightarrow>
                           if c = CHR ''-'' then map_option negate (parse_absfloat cs)
                           else if c = CHR ''+'' then parse_absfloat cs
                           else parse_absfloat t)
              in case r of None \<Rightarrow> Inl ValueError | Some v \<Rightarrow> Inr v)
      else None)"

text \<open>
  \<^verbatim>\<open>1.0 / x\<close>: division by zero raises, an infinite divisor gives zero, and the
  quotient is rounded (it is infinite when \<open>x\<close> is small enough).
\<close>

definition one_over :: "pyfloat \<Rightarrow> py_error + pyfloat" where
  "one_over v =
     (case v of
        Fin x \<Rightarrow> if x = 0 then Inl ZeroDivisionError else Inr (round_double (1 / x))
      | PosInf \<Rightarrow> Inr (Fin 0)
      | NegInf \<Rightarrow> Inr (Fin 0)
      | NaN \<Rightarrow> Inr NaN)"

section \<open>The toolkit objects the wrapper works with\<close>

text \<open>\<^verbatim>\<open>QRect(x, y, width, height)\<close>.\<close>

datatype qrect = QRect int int int int

text \<open>
  What \<^verbatim>\<open>QSettings.value\<close> hands to Python: text, a bool or a rectangle.
\<close>

datatype qvariant = VString string | VBool bool | VRect qrect

text \<open>
  The settings of organisation \<^verbatim>\<open>Tech-Artists.org\<close>, application
  \<^verbatim>\<open>Blender Qt Wrapper\<close>: a store from full keys (group, slash, key) to values,
  which outlives the process. \<^verbatim>\<open>setValue\<close> writes a key; the store keeps its values
  as text, so a bool written in one session is the text \<^verbatim>\<open>true\<close> or
  \<^verbatim>\<open>false\<close> when it is read (the source compares the lower-cased text with
  \<^verbatim>\<open>'true'\<close>), and a rectangle is decoded back to a rectangle.
  \<^verbatim>\<open>value(key, default)\<close> gives the default for a key that was never written.
\<close>

type_synonym settings = "string \<rightharpoonup> qvariant"

definition SETTINGS_KEY_GEOMETRY :: string where
  "SETTINGS_KEY_GEOMETRY = ''Geometry''"

definition SETTINGS_KEY_MAXIMIZED :: string where
  "SETTINGS_KEY_MAXIMIZED = ''IsMaximized''"

definition SETTINGS_KEY_FULL_SCREEN :: string where
  "SETTINGS_KEY_FULL_SCREEN = ''IsFullScreen''"

definition SETTINGS_WINDOW_GROUP_NAME :: string where
  "SETTINGS_WINDOW_GROUP_NAME = ''MainWindow''"

definition group_key :: "string \<Rightarrow> string \<Rightarrow> string" where
  "group_key g k = g @ ''/'' @ k"

definition stored_form :: "qvariant \<Rightarrow> qvariant" where
  "stored_form v =
     (case v of VBool b \<Rightarrow> VString (if b then ''true'' else ''false'') | _ \<Rightarrow> v)"

definition setValue :: "settings \<Rightarrow> string \<Rightarrow> string \<Rightarrow> qvariant \<Rightarrow> settings" where
  "setValue s g k v = s(group_key g k \<mapsto> stored_form v)"

definition settings_value :: "settings \<Rightarrow> string \<Rightarrow> string \<Rightarrow> qvariant \<Rightarrow> qvariant" where
  "settings_value s g k d = (case s (group_key g k) of None \<Rightarrow> d | Some v \<Rightarrow> v)"

text \<open>\<^verbatim>\<open>v.lower()\<close> on what the settings returned: only text has the method.\<close>

definition variant_lower :: "qvariant \<Rightarrow> py_error + string" where
  "variant_lower v = (case v of VString t \<Rightarrow> Inr (lower t) | _ \<Rightarrow> Inl AttributeError)"

text \<open>
  Toolkit objects are compared by identity: the window adopted from a native handle,
  the container widget made for a window, and any other object.
\<close>

datatype qobject = WindowFromWinId nat | WindowContainer qobject | OtherObject nat

text \<open>
  An event: whether it is an instance of \<^verbatim>\<open>QCloseEvent\<close>, and its accepted flag,
  which \<^verbatim>\<open>ignore()\<close> clears.
\<close>

record qevent =
  is_close_event :: bool
  accepted :: bool

definition ignore :: "qevent \<Rightarrow> qevent" where
  "ignore e = e\<lparr>accepted := False\<rparr>"

text \<open>
  The calls the wrapper makes on its container widget. What each does to the window
  on screen is the toolkit's business; the model records the calls in order.
\<close>

datatype widget_call = ShowFullScreen | ShowMaximized | SetGeometry qrect | Show

text \<open>
  An image is what an icon file holds. \<^verbatim>\<open>QIcon(name)\<close> is the icon of the file with
  that name: it keeps the name and reads the file when it is drawn. It is null only
  when it was given no name, whether or not the file exists, and in a condition only
  \<^verbatim>\<open>None\<close> and a null icon are false.
\<close>

datatype image = Image nat

datatype qicon = QIcon string

definition icon_truthy :: "qicon option \<Rightarrow> bool" where
  "icon_truthy i = (case i of None \<Rightarrow> False | Some (QIcon name) \<Rightarrow> name \<noteq> [])"

section \<open>\<^verbatim>\<open>BlenderApplication\<close>\<close>

text \<open>
  The fields of the wrapper object. \<open>hwnd\<close> is \<open>None\<close> while the attribute
  \<^verbatim>\<open>_hwnd\<close> has not been assigned. \<open>geometry\<close>, \<open>isMaximized\<close> and
  \<open>isFullScreen\<close> are what the container widget answers at the moment;
  \<open>widget_calls\<close> are the calls made on it so far, \<open>focus_calls\<close> the native handles
  given to \<^verbatim>\<open>win32gui.SetFocus\<close>.
\<close>

record app =
  should_close :: bool
  hwnd :: "nat option"
  blender_window :: qobject
  blender_widget :: qobject
  geometry :: qrect
  isMaximized :: bool
  isFullScreen :: bool
  widget_calls :: "widget_call list"
  focus_calls :: "nat list"

definition call_widget :: "widget_call \<Rightarrow> app \<Rightarrow> app" where
  "call_widget c a = a\<lparr>widget_calls := widget_calls a @ [c]\<rparr>"

text \<open>\<^verbatim>\<open>_store_window_geometry\<close>: three writes inside the window group.\<close>

definition store_window_geometry :: "app \<Rightarrow> settings \<Rightarrow> settings" where
  "store_window_geometry a s =
     (let g = SETTINGS_WINDOW_GROUP_NAME;
          s1 = setValue s g SETTINGS_KEY_GEOMETRY (VRect (geometry a));
          s2 = setValue s1 g SETTINGS_KEY_MAXIMIZED (VBool (isMaximized a));
          s3 = setValue s2 g SETTINGS_KEY_FULL_SCREEN (VBool (isFullScreen a))
      in s3)"

text \<open>
  \<^verbatim>\<open>_set_window_geometry\<close>: the full-screen flag is read first, then the maximized
  flag, then the rectangle. \<^verbatim>\<open>setGeometry\<close> takes a rectangle only.
\<close>

definition set_window_geometry :: "settings \<Rightarrow> app \<Rightarrow> py_error + app" where
  "set_window_geometry s a =
     (let g = SETTINGS_WINDOW_GROUP_NAME in
      case variant_lower (settings_value s g SETTINGS_KEY_FULL_SCREEN (VString ''false'')) of
        Inl e \<Rightarrow> Inl e
      | Inr fs \<Rightarrow>
          if fs = ''true'' then Inr (call_widget ShowFullScreen a)
          else
            (case variant_lower (settings_value s g SETTINGS_KEY_MAXIMIZED (VString ''false'')) of
               Inl e \<Rightarrow> Inl e
             | Inr mx \<Rightarrow>
                 if mx = ''true'' then Inr (call_widget ShowMaximized a)
                 else
                   (case settings_value s g SETTINGS_KEY_GEOMETRY (VRect (QRect 0 0 640 480)) of
                      VRect r \<Rightarrow> Inr (call_widget Show (call_widget (SetGeometry r) a))
                    | _ \<Rightarrow> Inl TypeError)))"

text \<open>
  \<^verbatim>\<open>notify\<close>. Default handling is the toolkit's \<^verbatim>\<open>QApplication.notify\<close>, taken as
  the parameter \<open>default_notify\<close>: it answers a bool and knows nothing of the wrapper's
  fields. The result is the returned bool, the event, the wrapper and the settings.
\<close>

definition notify ::
  "(qobject \<Rightarrow> qevent \<Rightarrow> bool) \<Rightarrow> qobject \<Rightarrow> qevent \<Rightarrow> app \<Rightarrow> settings
     \<Rightarrow> bool \<times> qevent \<times> app \<times> settings" where
  "notify default_notify receiver event a s =
     (if is_close_event event \<and> receiver \<in> set [blender_widget a, blender_window a]
      then (False, ignore event, a\<lparr>should_close := True\<rparr>, store_window_geometry a s)
      else (default_notify receiver event, event, a, s))"

text \<open>
  \<^verbatim>\<open>_on_focus_object_changed\<close>: on Windows, focus landing on the container is handed
  to the native window.
\<close>

definition IS_WINDOWS :: "string \<Rightarrow> bool" where
  "IS_WINDOWS platform_system = (lower platform_system = ''windows'')"

definition IS_MAC :: "string \<Rightarrow> bool" where
  "IS_MAC platform_system = (lower platform_system = ''darwin'')"

definition IS_LINUX :: "string \<Rightarrow> bool" where
  "IS_LINUX platform_system = (lower platform_system = ''linux'')"

definition on_focus_object_changed :: "string \<Rightarrow> qobject \<Rightarrow> app \<Rightarrow> py_error + app" where
  "on_focus_object_changed platform_system focus_object a =
     (if focus_object = blender_widget a then
        (if IS_WINDOWS platform_system then
           (case hwnd a of
              None \<Rightarrow> Inl AttributeError
            | Some h \<Rightarrow> Inr (a\<lparr>focus_calls := focus_calls a @ [h]\<rparr>))
         else Inr a)
      else Inr a)"

subsection \<open>The icon routines\<close>

text \<open>
  What the operating system and the host hand to the module:
  \<^item> \<open>platform_system\<close>: \<^verbatim>\<open>platform.system()\<close>;
  \<^item> \<open>native_handle\<close>: the outcome of looking up the host's native window
    (\<^verbatim>\<open>win32gui.FindWindow\<close>, or the content view of the main window on macOS);
  \<^item> \<open>processes\<close>: for each process id of \<^verbatim>\<open>EnumProcesses()\<close>, in order, the
    executable name that \<^verbatim>\<open>OpenProcess\<close> and \<^verbatim>\<open>GetModuleFileNameEx\<close> give, or
    the error they raise;
  \<^item> \<open>extract_icon\<close>: lines 245 to 258 for one executable: the error raised on the
    way, or the image saved at the temporary path (\<open>None\<close> when nothing was written);
  \<^item> \<open>tempdir\<close>: \<^verbatim>\<open>tempfile.gettempdir()\<close>;
  \<^item> \<open>bundle_contents\<close>: on macOS, the directory two levels above the resolved
    \<^verbatim>\<open>bpy.app.binary_path\<close>;
  \<^item> \<open>new_widget_geometry\<close>: the rectangle a new container widget reports;
  \<^item> \<open>environ\<close>: the process environment; \<open>module_file\<close>: \<^verbatim>\<open>__file__\<close>.
  Paths are written with \<open>/\<close> between their parts.
\<close>

record host =
  platform_system :: string
  native_handle :: "py_error + nat"
  processes :: "(py_error + string) list"
  extract_icon :: "string \<Rightarrow> py_error + image option"
  tempdir :: string
  bundle_contents :: string
  new_widget_geometry :: qrect
  environ :: environ
  module_file :: string

definition TEMP_ICON_FILEPATH :: "host \<Rightarrow> string" where
  "TEMP_ICON_FILEPATH h = tempdir h @ ''/'' @ ''blender_icon.png''"

definition get_application_icon_linux :: "py_error + qicon" where
  "get_application_icon_linux = Inl NotImplementedError"

definition get_application_icon_macintosh :: "host \<Rightarrow> qicon" where
  "get_application_icon_macintosh h =
     QIcon (bundle_contents h @ ''/'' @ ''Resources'' @ ''/'' @ ''blender icon.icns'')"

text \<open>
  The loop of \<^verbatim>\<open>_get_application_icon_windows\<close> over the processes, threading the
  content of the file at \<^verbatim>\<open>TEMP_ICON_FILEPATH\<close>. \<^verbatim>\<open>suppress(pywintypes.error)\<close>
  swallows that error only and goes on with the next process. The result is the error
  that ended the loop, if any, and the file as the loop left it.
\<close>

fun icon_loop ::
  "(string \<Rightarrow> py_error + image option) \<Rightarrow> (py_error + string) list \<Rightarrow> image option
     \<Rightarrow> py_error option \<times> image option" where
  "icon_loop ex [] f = (None, f)"
| "icon_loop ex (p # ps) f =
     (case p of
        Inl e \<Rightarrow> if e = PywinError then icon_loop ex ps f else (Some e, f)
      | Inr exe \<Rightarrow>
          if contains (lower exe) ''blender'' then
            (case ex exe of
               Inl e \<Rightarrow> if e = PywinError then icon_loop ex ps f else (Some e, f)
             | Inr None \<Rightarrow> icon_loop ex ps f
             | Inr (Some img) \<Rightarrow> icon_loop ex ps (Some img))
          else icon_loop ex ps f)"

text \<open>
  After the loop the routine returns the icon of the file named
  \<^verbatim>\<open>TEMP_ICON_FILEPATH\<close>, whatever the loop did.
\<close>

definition get_application_icon_windows ::
  "host \<Rightarrow> image option \<Rightarrow> (py_error + qicon) \<times> image option" where
  "get_application_icon_windows h f =
     (case icon_loop (extract_icon h) (processes h) f of
        (Some e, f') \<Rightarrow> (Inl e, f')
      | (None, f') \<Rightarrow> (Inr (QIcon (TEMP_ICON_FILEPATH h)), f'))"

section \<open>The module's state and its functions\<close>

text \<open>
  \<^verbatim>\<open>QApplication.instance()\<close> is one of:
  \<^item> a wrapper of this module that has its window and its container widget;
  \<^item> \<open>BareWrapper\<close>, a wrapper of this module whose constructor raised before line
    85: \<open>should_close\<close> is false and the attributes \<^verbatim>\<open>_blender_window\<close> and
    \<^verbatim>\<open>blender_widget\<close> do not exist, so every method that reads them raises;
  \<^item> an application object somebody else made.
\<close>

datatype qapplication = Wrapper app | BareWrapper | ForeignApplication

text \<open>
  The state the module's functions read and write:
  \<^item> \<open>qapp\<close>: \<^verbatim>\<open>QApplication.instance()\<close>;
  \<^item> \<open>window_icon\<close>: the icon given to \<^verbatim>\<open>QApplication.setWindowIcon\<close>, if any;
  \<^item> \<open>settings\<close>: the persistent settings store;
  \<^item> \<open>temp_icon_file\<close>: the content of the file at \<^verbatim>\<open>TEMP_ICON_FILEPATH\<close>;
  \<^item> \<open>timers\<close>: the functions registered with \<^verbatim>\<open>bpy.app.timers\<close>;
  \<^item> \<open>classes\<close>: the classes registered with \<^verbatim>\<open>bpy.utils\<close>;
  \<^item> \<open>load_post\<close>: \<^verbatim>\<open>bpy.app.handlers.load_post\<close>;
  \<^item> \<open>windows\<close>: \<^verbatim>\<open>bpy.context.window_manager.windows\<close>;
  \<^item> \<open>quit_requests\<close>: the windows given to \<^verbatim>\<open>bpy.ops.wm.quit_blender\<close>;
  \<^item> \<open>loop_quit\<close>: whether \<^verbatim>\<open>quit()\<close> was called on the application.
  A function that can raise returns its outcome, an error or a value, together with
  the state it left behind.
\<close>

record world =
  qapp :: "qapplication option"
  window_icon :: "qicon option"
  settings :: settings
  temp_icon_file :: "image option"
  timers :: "string list"
  classes :: "string list"
  load_post :: "string list"
  windows :: "nat list"
  quit_requests :: "nat list"
  loop_quit :: bool

subsection \<open>\<^verbatim>\<open>BlenderApplication.__init__\<close>\<close>

text \<open>
  Lines 77 to 82: \<^verbatim>\<open>_hwnd\<close> is assigned on Windows and macOS only.
\<close>

definition find_hwnd :: "host \<Rightarrow> py_error + nat option" where
  "find_hwnd h =
     (if IS_WINDOWS (platform_system h) \<or> IS_MAC (platform_system h) then
        (case native_handle h of Inl e \<Rightarrow> Inl e | Inr n \<Rightarrow> Inr (Some n))
      else Inr None)"

text \<open>
  Lines 87 to 95: the icon of the platform, with the file at the temporary path.
  On Linux the routine is called for its effect and \<^verbatim>\<open>icon\<close> stays \<^verbatim>\<open>None\<close>.
\<close>

definition select_icon ::
  "host \<Rightarrow> image option \<Rightarrow> (py_error + qicon option) \<times> image option" where
  "select_icon h f =
     (if IS_MAC (platform_system h) then (Inr (Some (get_application_icon_macintosh h)), f)
      else if IS_LINUX (platform_system h) then
        (case get_application_icon_linux of Inl e \<Rightarrow> (Inl e, f) | Inr _ \<Rightarrow> (Inr None, f))
      else if IS_WINDOWS (platform_system h) then
        (case get_application_icon_windows h f of
           (Inl e, f') \<Rightarrow> (Inl e, f')
         | (Inr icon, f') \<Rightarrow> (Inr (Some icon), f'))
      else (Inl NotImplementedError, f))"

text \<open>
  The constructor. \<^verbatim>\<open>super().__init__(argv)\<close> at line 73 makes the object
  \<^verbatim>\<open>QApplication.instance()\<close> before anything can raise, and it stays the instance
  when the constructor raises later: bare when the raise comes before line 85 (the
  handle lookup, or reading \<^verbatim>\<open>self._hwnd\<close> at line 84 when the attribute was never
  assigned), with its window and widget when the icon or the geometry raises.
\<close>

definition init :: "host \<Rightarrow> world \<Rightarrow> (py_error + app) \<times> world" where
  "init h w =
     (case find_hwnd h of
        Inl e \<Rightarrow> (Inl e, w\<lparr>qapp := Some BareWrapper\<rparr>)
      | Inr None \<Rightarrow> (Inl AttributeError, w\<lparr>qapp := Some BareWrapper\<rparr>)
      | Inr (Some n) \<Rightarrow>
          (let a = \<lparr>should_close = False, hwnd = Some n,
                    blender_window = WindowFromWinId n,
                    blender_widget = WindowContainer (WindowFromWinId n),
                    geometry = new_widget_geometry h, isMaximized = False, isFullScreen = False,
                    widget_calls = [], focus_calls = []\<rparr>
           in case select_icon h (temp_icon_file w) of
                (Inl e, f) \<Rightarrow> (Inl e, w\<lparr>qapp := Some (Wrapper a), temp_icon_file := f\<rparr>)
              | (Inr icon, f) \<Rightarrow>
                  (let w1 = w\<lparr>temp_icon_file := f,
                              window_icon := (if icon_truthy icon then icon else window_icon w)\<rparr>
                   in case (if \<not> IS_MAC (platform_system h)
                            then set_window_geometry (settings w1) a else Inr a) of
                        Inl e \<Rightarrow> (Inl e, w1\<lparr>qapp := Some (Wrapper a)\<rparr>)
                      | Inr a' \<Rightarrow> (Inr a', w1\<lparr>qapp := Some (Wrapper a')\<rparr>))))"

subsection \<open>Module level\<close>

text \<open>
  Line 55, evaluated once when the module is imported:
  \<^verbatim>\<open>TICK = 1.0 / float(os.getenv('BQT_TICK_RATE', '30'))\<close>.
\<close>

definition TICK :: "environ \<Rightarrow> (py_error + pyfloat) option" where
  "TICK env =
     (case py_float (getenv_default env ''BQT_TICK_RATE'' ''30'') of
        None \<Rightarrow> None
      | Some (Inl e) \<Rightarrow> Some (Inl e)
      | Some (Inr v) \<Rightarrow> Some (one_over v))"

text \<open>
  \<^verbatim>\<open>instantiate_application\<close>: any existing application object is returned as it is;
  otherwise the wrapper is constructed and, when the constructor has returned,
  \<^verbatim>\<open>on_update\<close> is registered as a timer.
\<close>

definition instantiate_application ::
  "host \<Rightarrow> world \<Rightarrow> (py_error + qapplication) \<times> world" where
  "instantiate_application h w =
     (case qapp w of
        Some existing \<Rightarrow> (Inr existing, w)
      | None \<Rightarrow>
          (case init h w of
             (Inl e, w') \<Rightarrow> (Inl e, w')
           | (Inr a, w') \<Rightarrow> (Inr (Wrapper a), w'\<lparr>timers := timers w' @ [''on_update'']\<rparr>)))"

text \<open>\<^verbatim>\<open>QOperator.execute\<close> keeps the application and answers \<^verbatim>\<open>{'PASS_THROUGH'}\<close>.\<close>

definition execute :: "host \<Rightarrow> world \<Rightarrow> (py_error + string list) \<times> world" where
  "execute h w =
     (case instantiate_application h w of
        (Inl e, w') \<Rightarrow> (Inl e, w')
      | (Inr _, w') \<Rightarrow> (Inr [''PASS_THROUGH''], w'))"

text \<open>
  \<^verbatim>\<open>on_update\<close>, given the module's \<^verbatim>\<open>TICK\<close>. Reading \<^verbatim>\<open>should_close\<close> needs a
  wrapper of this module; \<^verbatim>\<open>windows[0]\<close> needs a window. It raises before it
  changes anything.
\<close>

definition on_update :: "pyfloat \<Rightarrow> world \<Rightarrow> py_error + (pyfloat \<times> world)" where
  "on_update tick w =
     (case qapp w of
        None \<Rightarrow> Inl AttributeError
      | Some ForeignApplication \<Rightarrow> Inl AttributeError
      | Some BareWrapper \<Rightarrow> Inr (tick, w)
      | Some (Wrapper a) \<Rightarrow>
          if should_close a then
            (case windows w of
               [] \<Rightarrow> Inl IndexError
             | win # _ \<Rightarrow> Inr (tick, w\<lparr>quit_requests := quit_requests w @ [win]\<rparr>))
          else Inr (tick, w))"

text \<open>
  The host's \<^verbatim>\<open>bpy.ops.qoperator.global_app()\<close>: an operator that is not registered
  cannot be found, which raises \<^verbatim>\<open>AttributeError\<close>; otherwise the host runs
  \<^verbatim>\<open>QOperator.execute\<close> and reports an error raised there as \<^verbatim>\<open>RuntimeError\<close>.
\<close>

definition ops_global_app :: "host \<Rightarrow> world \<Rightarrow> py_error option \<times> world" where
  "ops_global_app h w =
     (if ''QOperator'' \<in> set (classes w) then
        (case execute h w of
           (Inl e, w') \<Rightarrow> (Some RuntimeError, w')
         | (Inr _, w') \<Rightarrow> (None, w'))
      else (Some AttributeError, w))"

text \<open>\<^verbatim>\<open>create_global_app\<close>, the handler of \<^verbatim>\<open>load_post\<close>.\<close>

definition create_global_app :: "host \<Rightarrow> world \<Rightarrow> py_error option \<times> world" where
  "create_global_app h w =
     (if contains (module_file h) ''startup''
         \<and> \<not> truthy (getenv (environ h) ''BQT_DISABLE_STARTUP'')
      then ops_global_app h w
      else (None, w))"

text \<open>
  The host's \<^verbatim>\<open>bpy.utils.register_class\<close> and \<^verbatim>\<open>unregister_class\<close>: registering a
  class that is registered raises \<^verbatim>\<open>ValueError\<close>, unregistering one that is not raises
  \<^verbatim>\<open>RuntimeError\<close>. The module's entry block at lines 446 to 452 expects as much: it
  wraps \<^verbatim>\<open>unregister()\<close> in \<^verbatim>\<open>except (ValueError, TypeError, RuntimeError)\<close>.
\<close>

definition register_class :: "string \<Rightarrow> world \<Rightarrow> py_error + world" where
  "register_class c w =
     (if c \<in> set (classes w) then Inl ValueError else Inr (w\<lparr>classes := classes w @ [c]\<rparr>))"

definition unregister_class :: "string \<Rightarrow> world \<Rightarrow> py_error + world" where
  "unregister_class c w =
     (if c \<in> set (classes w) then Inr (w\<lparr>classes := remove1 c (classes w)\<rparr>)
      else Inl RuntimeError)"

text \<open>
  \<^verbatim>\<open>register\<close> and \<^verbatim>\<open>unregister\<close>: the error raised, if any, and the state left
  behind. An error from the class call leaves the handler list untouched.
\<close>

definition register :: "world \<Rightarrow> py_error option \<times> world" where
  "register w =
     (case register_class ''QOperator'' w of
        Inl e \<Rightarrow> (Some e, w)
      | Inr w' \<Rightarrow>
          (None,
           if ''create_global_app'' \<notin> set (load_post w')
           then w'\<lparr>load_post := load_post w' @ [''create_global_app'']\<rparr>
           else w'))"

definition unregister :: "world \<Rightarrow> py_error option \<times> world" where
  "unregister w =
     (case unregister_class ''QOperator'' w of
        Inl e \<Rightarrow> (Some e, w)
      | Inr w' \<Rightarrow>
          (None,
           if ''create_global_app'' \<in> set (load_post w')
           then w'\<lparr>load_post := remove1 ''create_global_app'' (load_post w')\<rparr>
           else w'))"

text \<open>The entry block: errors of the three kinds from \<^verbatim>\<open>unregister()\<close> are printed.\<close>

definition main_block :: "world \<Rightarrow> py_error option \<times> world" where
  "main_block w =
     (case unregister w of
        (None, w') \<Rightarrow> register w'
      | (Some e, w') \<Rightarrow>
          if e \<in> set [ValueError, TypeError, RuntimeError] then register w' else (Some e, w'))"

text \<open>\<^verbatim>\<open>onexit\<close>: the application, if there is one, is told to quit.\<close>

definition onexit :: "world \<Rightarrow> world" where
  "onexit w = (case qapp w of None \<Rightarrow> w | Some _ \<Rightarrow> w\<lparr>loop_quit := True\<rparr>)"

subsection \<open>Runs of the module\<close>

text \<open>
  Everything that can happen to the state after import: a call of one of the wrapper's
  methods or of one of the module's functions, or the toolkit changing what the
  container widget reports (\<open>WidgetChanged\<close>). A call leaves the state it reached,
  also when it raises; the wrapper's methods raise before they change anything.
\<close>

datatype op =
    Notify qobject qevent
  | FocusObjectChanged qobject
  | SetWindowGeometry
  | StoreWindowGeometry
  | Execute
  | InstantiateApplication
  | OnUpdate
  | CreateGlobalApp
  | Register
  | Unregister
  | OnExit
  | WidgetChanged qrect bool bool

definition with_wrapper :: "world \<Rightarrow> (app \<Rightarrow> world) \<Rightarrow> world" where
  "with_wrapper w f = (case qapp w of Some (Wrapper a) \<Rightarrow> f a | _ \<Rightarrow> w)"

fun step :: "(qobject \<Rightarrow> qevent \<Rightarrow> bool) \<Rightarrow> host \<Rightarrow> pyfloat \<Rightarrow> op \<Rightarrow> world \<Rightarrow> world" where
  "step dn h tick (Notify r e) w =
     with_wrapper w (\<lambda>a. case notify dn r e a (settings w) of
                            (_, _, a', s') \<Rightarrow> w\<lparr>qapp := Some (Wrapper a'), settings := s'\<rparr>)"
| "step dn h tick (FocusObjectChanged obj) w =
     with_wrapper w (\<lambda>a. case on_focus_object_changed (platform_system h) obj a of
                            Inl _ \<Rightarrow> w
                          | Inr a' \<Rightarrow> w\<lparr>qapp := Some (Wrapper a')\<rparr>)"
| "step dn h tick SetWindowGeometry w =
     with_wrapper w (\<lambda>a. case set_window_geometry (settings w) a of
                            Inl _ \<Rightarrow> w
                          | Inr a' \<Rightarrow> w\<lparr>qapp := Some (Wrapper a')\<rparr>)"
| "step dn h tick StoreWindowGeometry w =
     with_wrapper w (\<lambda>a. w\<lparr>settings := store_window_geometry a (settings w)\<rparr>)"
| "step dn h tick Execute w = snd (execute h w)"
| "step dn h tick InstantiateApplication w = snd (instantiate_application h w)"
| "step dn h tick OnUpdate w = (case on_update tick w of Inl _ \<Rightarrow> w | Inr (_, w') \<Rightarrow> w')"
| "step dn h tick CreateGlobalApp w = snd (create_global_app h w)"
| "step dn h tick Register w = snd (register w)"
| "step dn h tick Unregister w = snd (unregister w)"
| "step dn h tick OnExit w = onexit w"
| "step dn h tick (WidgetChanged g m f) w =
     with_wrapper w (\<lambda>a. w\<lparr>qapp := Some (Wrapper (a\<lparr>geometry := g, isMaximized := m,
                                                      isFullScreen := f\<rparr>))\<rparr>)"

fun run :: "(qobject \<Rightarrow> qevent \<Rightarrow> bool) \<Rightarrow> host \<Rightarrow> pyfloat \<Rightarrow> op list \<Rightarrow> world \<Rightarrow> world" where
  "run dn h tick [] w = w"
| "run dn h tick (x # xs) w = run dn h tick xs (step dn h tick x w)"

text \<open>The flag of the current wrapper, false while there is none.\<close>

definition closing :: "world \<Rightarrow> bool" where
  "closing w = (case qapp w of Some (Wrapper a) \<Rightarrow> should_close a | _ \<Rightarrow> False)"

section \<open>Notions of the specification\<close>

text \<open>
  A persisted flag is true when its key holds text that reads \<^verbatim>\<open>true\<close> in any
  case; the persisted geometry is the rectangle under its key, \<open>(0, 0, 640, 480)\<close>
  when there is none.
\<close>

definition persisted_flag :: "settings \<Rightarrow> string \<Rightarrow> bool" where
  "persisted_flag s k =
     (case s (group_key SETTINGS_WINDOW_GROUP_NAME k) of
        Some (VString t) \<Rightarrow> lower t = ''true''
      | _ \<Rightarrow> False)"

definition persisted_geometry :: "settings \<Rightarrow> qrect" where
  "persisted_geometry s =
     (case s (group_key SETTINGS_WINDOW_GROUP_NAME SETTINGS_KEY_GEOMETRY) of
        Some (VRect r) \<Rightarrow> r
      | _ \<Rightarrow> QRect 0 0 640 480)"

text \<open>
  A stored settings state: each of the three keys was never written, or holds what
  \<^verbatim>\<open>_store_window_geometry\<close> leaves there, text for a flag and a rectangle for the
  geometry.
\<close>

definition text_or_unset :: "qvariant option \<Rightarrow> bool" where
  "text_or_unset v = (case v of None \<Rightarrow> True | Some (VString _) \<Rightarrow> True | Some _ \<Rightarrow> False)"

definition rect_or_unset :: "qvariant option \<Rightarrow> bool" where
  "rect_or_unset v = (case v of None \<Rightarrow> True | Some (VRect _) \<Rightarrow> True | Some _ \<Rightarrow> False)"

definition settings_typed :: "settings \<Rightarrow> bool" where
  "settings_typed s =
     (text_or_unset (s (group_key SETTINGS_WINDOW_GROUP_NAME SETTINGS_KEY_FULL_SCREEN)) \<and>
      text_or_unset (s (group_key SETTINGS_WINDOW_GROUP_NAME SETTINGS_KEY_MAXIMIZED)) \<and>
      rect_or_unset (s (group_key SETTINGS_WINDOW_GROUP_NAME SETTINGS_KEY_GEOMETRY)))"

text \<open>
  What a sequence of calls gave the window: the last rectangle set, whether it was
  shown maximized, whether it was shown full-screen.
\<close>

fun applied_geometry :: "widget_call list \<Rightarrow> qrect option" where
  "applied_geometry [] = None"
| "applied_geometry (c # cs) =
     (case applied_geometry cs of
        Some r \<Rightarrow> Some r
      | None \<Rightarrow> (case c of SetGeometry r \<Rightarrow> Some r | _ \<Rightarrow> None))"

definition restored_values :: "widget_call list \<Rightarrow> qrect option \<times> bool \<times> bool" where
  "restored_values cs = (applied_geometry cs, ShowMaximized \<in> set cs, ShowFullScreen \<in> set cs)"

text \<open>
  The enumeration finds no matching process: every process either raised the
  suppressed error when it was opened, or has an executable name without
  \<^verbatim>\<open>blender\<close> in it.
\<close>

definition no_match :: "(py_error + string) list \<Rightarrow> bool" where
  "no_match ps =
     list_all (\<lambda>p. case p of Inl e \<Rightarrow> e = PywinError
                          | Inr exe \<Rightarrow> \<not> contains (lower exe) ''blender'') ps"

subsection \<open>Sample states\<close>

text \<open>A wrapper whose window is both maximized and full-screen, and a close event.\<close>

definition sample_app :: app where
  "sample_app =
     \<lparr>should_close = False, hwnd = Some 7,
      blender_window = WindowFromWinId 7,
      blender_widget = WindowContainer (WindowFromWinId 7),
      geometry = QRect 10 20 300 200, isMaximized = True, isFullScreen = True,
      widget_calls = [], focus_calls = []\<rparr>"

definition close_event :: qevent where
  "close_event = \<lparr>is_close_event = True, accepted = True\<rparr>"

definition sample_settings :: settings where
  "sample_settings =
     [group_key SETTINGS_WINDOW_GROUP_NAME SETTINGS_KEY_FULL_SCREEN \<mapsto> VString ''false'',
      group_key SETTINGS_WINDOW_GROUP_NAME SETTINGS_KEY_MAXIMIZED \<mapsto> VString ''True'']"

text \<open>
  A Windows host on which no process is called blender, with the module under a
  \<^verbatim>\<open>startup\<close> directory and \<^verbatim>\<open>BQT_DISABLE_STARTUP\<close> set to the empty string.
\<close>

definition sample_host :: host where
  "sample_host =
     \<lparr>platform_system = ''Windows'', native_handle = Inr 7,
      processes = [Inr ''C:/Windows/explorer.exe'', Inl PywinError],
      extract_icon = (\<lambda>_. Inr (Some (Image 1))),
      tempdir = ''C:/Temp'', bundle_contents = [],
      new_widget_geometry = QRect 0 0 640 480,
      environ = [''BQT_DISABLE_STARTUP'' \<mapsto> []],
      module_file = ''/scripts/startup/bqt.py''\<rparr>"

text \<open>The state before anything was registered or instantiated, with one host window.\<close>

definition clean_world :: world where
  "clean_world =
     \<lparr>qapp = None, window_icon = None, settings = Map.empty, temp_icon_file = None,
      timers = [], classes = [], load_post = [], windows = [1], quit_requests = [],
      loop_quit = False\<rparr>"

text \<open>The same host, were it a Linux machine.\<close>

definition linux_host :: host where
  "linux_host = sample_host\<lparr>platform_system := ''Linux''\<rparr>"

text \<open>The clean state after \<^verbatim>\<open>register()\<close>.\<close>

definition registered_world :: world where
  "registered_world =
     clean_world\<lparr>classes := [''QOperator''], load_post := [''create_global_app'']\<rparr>"

text \<open>The icon of the temporary file on the sample host.\<close>

definition sample_icon :: qicon where
  "sample_icon = QIcon ''C:/Temp/blender_icon.png''"

text \<open>The wrapper the constructor makes on the sample host from the clean state.\<close>

definition started_app :: app where
  "started_app =
     \<lparr>should_close = False, hwnd = Some 7,
      blender_window = WindowFromWinId 7,
      blender_widget = WindowContainer (WindowFromWinId 7),
      geometry = QRect 0 0 640 480, isMaximized = False, isFullScreen = False,
      widget_calls = [SetGeometry (QRect 0 0 640 480), Show], focus_calls = []\<rparr>"

section \<open>Properties\<close>

subsection \<open>Substrings\<close>

text \<open>\<open>contains\<close> is the substring test: some text before, the piece, some text after.\<close>

lemma starts_with_append: "starts_with s p \<longleftrightarrow> (\<exists>q. s = p @ q)"
  by (induction s p rule: starts_with.induct) auto

lemma contains_substring: "contains s sub \<longleftrightarrow> (\<exists>p q. s = p @ sub @ q)"
proof (induction s)
  case Nil
  then show ?case by auto
next
  case (Cons c cs)
  show ?case
  proof
    assume "contains (c # cs) sub"
    then consider "starts_with (c # cs) sub" | "contains cs sub"
      by auto
    then show "\<exists>p q. c # cs = p @ sub @ q"
    proof cases
      case 1
      then obtain q where "c # cs = sub @ q"
        by (auto simp: starts_with_append)
      then have "c # cs = [] @ sub @ q" by simp
      then show ?thesis by blast
    next
      case 2
      with Cons obtain p q where "cs = p @ sub @ q" by blast
      then have "c # cs = (c # p) @ sub @ q" by simp
      then show ?thesis by blast
    qed
  next
    assume "\<exists>p q. c # cs = p @ sub @ q"
    then obtain p q where e: "c # cs = p @ sub @ q" by blast
    show "contains (c # cs) sub"
    proof (cases p)
      case Nil
      with e have "starts_with (c # cs) sub"
        by (auto simp: starts_with_append)
      then show ?thesis by simp
    next
      case (Cons d ds)
      with e have "cs = ds @ sub @ q" by simp
      with Cons.IH have "contains cs sub" by blast
      then show ?thesis by simp
    qed
  qed
qed

subsection \<open>Settings: what the store writes and what the restore reads\<close>

lemmas key_defs = group_key_def SETTINGS_WINDOW_GROUP_NAME_def SETTINGS_KEY_GEOMETRY_def
  SETTINGS_KEY_MAXIMIZED_def SETTINGS_KEY_FULL_SCREEN_def

lemma lower_true: "lower ''true'' = ''true''"
  by (simp add: lower_def lower_char_def)

lemma lower_false: "lower ''false'' = ''false''"
  by (simp add: lower_def lower_char_def)

lemma store_geometry_key:
  "store_window_geometry a s (group_key SETTINGS_WINDOW_GROUP_NAME SETTINGS_KEY_GEOMETRY)
     = Some (VRect (geometry a))"
  by (simp add: store_window_geometry_def setValue_def stored_form_def key_defs)

lemma store_maximized_key:
  "store_window_geometry a s (group_key SETTINGS_WINDOW_GROUP_NAME SETTINGS_KEY_MAXIMIZED)
     = Some (VString (if isMaximized a then ''true'' else ''false''))"
  by (simp add: store_window_geometry_def setValue_def stored_form_def key_defs)

lemma store_full_screen_key:
  "store_window_geometry a s (group_key SETTINGS_WINDOW_GROUP_NAME SETTINGS_KEY_FULL_SCREEN)
     = Some (VString (if isFullScreen a then ''true'' else ''false''))"
  by (simp add: store_window_geometry_def setValue_def stored_form_def key_defs)

lemma store_other_key:
  "k \<notin> {group_key SETTINGS_WINDOW_GROUP_NAME SETTINGS_KEY_GEOMETRY,
          group_key SETTINGS_WINDOW_GROUP_NAME SETTINGS_KEY_MAXIMIZED,
          group_key SETTINGS_WINDOW_GROUP_NAME SETTINGS_KEY_FULL_SCREEN}
   \<Longrightarrow> store_window_geometry a s k = s k"
  by (simp add: store_window_geometry_def setValue_def)

lemma store_persisted_geometry: "persisted_geometry (store_window_geometry a s) = geometry a"
  by (simp add: persisted_geometry_def store_geometry_key)

lemma store_persisted_maximized:
  "persisted_flag (store_window_geometry a s) SETTINGS_KEY_MAXIMIZED = isMaximized a"
  by (simp add: persisted_flag_def store_maximized_key lower_true lower_false)

lemma store_persisted_full_screen:
  "persisted_flag (store_window_geometry a s) SETTINGS_KEY_FULL_SCREEN = isFullScreen a"
  by (simp add: persisted_flag_def store_full_screen_key lower_true lower_false)

text \<open>The store leaves a stored settings state, and so is the state nobody wrote yet.\<close>

lemma store_typed: "settings_typed (store_window_geometry a s)"
  by (simp add: settings_typed_def store_geometry_key store_maximized_key store_full_screen_key
      text_or_unset_def rect_or_unset_def)

lemma empty_typed: "settings_typed Map.empty"
  by (simp add: settings_typed_def text_or_unset_def rect_or_unset_def)

lemma set_window_geometry_typed:
  assumes "settings_typed s"
  shows "set_window_geometry s a =
           Inr (a\<lparr>widget_calls := widget_calls a @
                  (if persisted_flag s SETTINGS_KEY_FULL_SCREEN then [ShowFullScreen]
                   else if persisted_flag s SETTINGS_KEY_MAXIMIZED then [ShowMaximized]
                   else [SetGeometry (persisted_geometry s), Show])\<rparr>)"
  using assms
  by (auto simp: settings_typed_def text_or_unset_def rect_or_unset_def set_window_geometry_def
      settings_value_def variant_lower_def persisted_flag_def persisted_geometry_def
      call_widget_def lower_false split: option.splits qvariant.splits)

text \<open>
  Outside the stored states the restore raises: a flag that came back as a bool has no
  \<^verbatim>\<open>lower\<close>.
\<close>

lemma set_window_geometry_bool_flag:
  "s (group_key SETTINGS_WINDOW_GROUP_NAME SETTINGS_KEY_FULL_SCREEN) = Some (VBool b)
   \<Longrightarrow> set_window_geometry s a = Inl AttributeError"
  by (simp add: set_window_geometry_def settings_value_def variant_lower_def)

subsection \<open>Close interception\<close>

text \<open>
  C1. For every event and receiver given to \<^verbatim>\<open>notify\<close>: when the event is a close
  event and the receiver is the container widget or the wrapped window, \<^verbatim>\<open>notify\<close>
  returns \<open>False\<close>, has ignored the event, has set \<open>should_close\<close>, has written the
  widget's geometry and its two flags to the settings, and has not consulted default
  handling (the outcome is the same for any two default handlers). For every other
  pair, the outcome is exactly what default handling answers, with the event, the
  wrapper and the settings as they were.
\<close>

theorem notify_close_interception:
  "(is_close_event e \<and> (r = blender_widget a \<or> r = blender_window a) \<longrightarrow>
      notify dn r e a s = (False, ignore e, a\<lparr>should_close := True\<rparr>, store_window_geometry a s)
      \<and> persisted_geometry (store_window_geometry a s) = geometry a
      \<and> persisted_flag (store_window_geometry a s) SETTINGS_KEY_MAXIMIZED = isMaximized a
      \<and> persisted_flag (store_window_geometry a s) SETTINGS_KEY_FULL_SCREEN = isFullScreen a
      \<and> notify dn' r e a s = notify dn r e a s)
   \<and> (\<not> (is_close_event e \<and> (r = blender_widget a \<or> r = blender_window a)) \<longrightarrow>
      notify dn r e a s = (dn r e, e, a, s))"
  by (auto simp: notify_def store_persisted_geometry store_persisted_maximized
      store_persisted_full_screen)

theorem notify_close_interception_witness:
  "notify (\<lambda>_ _. True) (WindowContainer (WindowFromWinId 7)) close_event sample_app Map.empty
     = (False, ignore close_event, sample_app\<lparr>should_close := True\<rparr>,
        store_window_geometry sample_app Map.empty)
   \<and> notify (\<lambda>_ _. True) (OtherObject 3) close_event sample_app Map.empty
     = (True, close_event, sample_app, Map.empty)"
  using notify_close_interception [of close_event "WindowContainer (WindowFromWinId 7)"
      sample_app "\<lambda>_ _. True" Map.empty "\<lambda>_ _. True"]
    notify_close_interception [of close_event "OtherObject 3"
      sample_app "\<lambda>_ _. True" Map.empty "\<lambda>_ _. True"]
  by (simp add: sample_app_def close_event_def)

subsection \<open>Restoring the window\<close>

text \<open>
  C2. For every stored settings state the restore makes exactly one of three call
  sequences on the container widget, chosen in this order: \<^verbatim>\<open>showFullScreen()\<close> alone
  when the persisted full-screen flag is true; otherwise \<^verbatim>\<open>showMaximized()\<close> alone
  when the persisted maximized flag is true; otherwise \<^verbatim>\<open>setGeometry\<close> with the
  persisted rectangle, \<open>(0, 0, 640, 480)\<close> when none is stored, followed by
  \<^verbatim>\<open>show()\<close>.
\<close>

theorem restore_priority:
  assumes "settings_typed s"
  shows "set_window_geometry s a =
           Inr (a\<lparr>widget_calls := widget_calls a @
                  (if persisted_flag s SETTINGS_KEY_FULL_SCREEN then [ShowFullScreen]
                   else if persisted_flag s SETTINGS_KEY_MAXIMIZED then [ShowMaximized]
                   else [SetGeometry (persisted_geometry s), Show])\<rparr>)"
  using assms by (rule set_window_geometry_typed)

theorem restore_priority_witness:
  "settings_typed sample_settings
   \<and> set_window_geometry sample_settings sample_app
       = Inr (sample_app\<lparr>widget_calls := [ShowMaximized]\<rparr>)
   \<and> settings_typed Map.empty
   \<and> set_window_geometry Map.empty sample_app
       = Inr (sample_app\<lparr>widget_calls := [SetGeometry (QRect 0 0 640 480), Show]\<rparr>)"
proof -
  have t: "settings_typed sample_settings"
    by (simp add: sample_settings_def settings_typed_def text_or_unset_def rect_or_unset_def
        key_defs)
  have f: "\<not> persisted_flag sample_settings SETTINGS_KEY_FULL_SCREEN"
    by (simp add: sample_settings_def persisted_flag_def key_defs lower_false)
  have m: "persisted_flag sample_settings SETTINGS_KEY_MAXIMIZED"
    by (simp add: sample_settings_def persisted_flag_def key_defs lower_def lower_char_def)
  have c: "widget_calls sample_app = []"
    by (simp add: sample_app_def)
  have e: "\<not> persisted_flag Map.empty k" for k
    by (simp add: persisted_flag_def)
  have g: "persisted_geometry Map.empty = QRect 0 0 640 480"
    by (simp add: persisted_geometry_def)
  show ?thesis
    using restore_priority [OF t, of sample_app] restore_priority [OF empty_typed, of sample_app]
      t empty_typed
    by (simp add: f m c e g)
qed

subsection \<open>Store, then restore\<close>

text \<open>
  C5, as stated, fails: a window stored as maximized and full-screen with geometry
  \<open>(10, 20, 300, 200)\<close> is restored by \<^verbatim>\<open>showFullScreen()\<close> alone; the restore
  neither reads the rectangle nor the maximized flag, so what it gives the window is
  not the three values that were stored.
\<close>

theorem store_restore_counterexample:
  "set_window_geometry (store_window_geometry sample_app Map.empty) sample_app
     = Inr (sample_app\<lparr>widget_calls := [ShowFullScreen]\<rparr>)
   \<and> restored_values [ShowFullScreen] = (None, False, True)
   \<and> (Some (geometry sample_app), isMaximized sample_app, isFullScreen sample_app)
       = (Some (QRect 10 20 300 200), True, True)"
proof -
  have "set_window_geometry (store_window_geometry sample_app Map.empty) sample_app
          = Inr (sample_app\<lparr>widget_calls := widget_calls sample_app @ [ShowFullScreen]\<rparr>)"
    by (simp add: set_window_geometry_typed [OF store_typed] store_persisted_full_screen
        sample_app_def)
  then show ?thesis
    by (simp add: sample_app_def restored_values_def)
qed

text \<open>
  C5, amended. For every rectangle and every combination of the two flags, after the
  store the three persisted values are the ones the widget reported, whatever the
  settings held before; and the restore gives the window the stored state in priority
  order: full-screen alone when the stored full-screen flag is true, otherwise
  maximized alone when the stored maximized flag is true, otherwise exactly the stored
  rectangle.
\<close>

theorem store_restore_round_trip:
  "persisted_geometry (store_window_geometry a s) = geometry a
   \<and> persisted_flag (store_window_geometry a s) SETTINGS_KEY_MAXIMIZED = isMaximized a
   \<and> persisted_flag (store_window_geometry a s) SETTINGS_KEY_FULL_SCREEN = isFullScreen a
   \<and> set_window_geometry (store_window_geometry a s) b =
       Inr (b\<lparr>widget_calls := widget_calls b @
              (if isFullScreen a then [ShowFullScreen]
               else if isMaximized a then [ShowMaximized]
               else [SetGeometry (geometry a), Show])\<rparr>)"
  by (simp add: set_window_geometry_typed [OF store_typed] store_persisted_geometry
      store_persisted_maximized store_persisted_full_screen)

subsection \<open>Rounding to a double\<close>

lemma pow2_powr: "pow2 k = 2 powr (of_int k)"
  by (simp only: pow2_def powr_real_of_int [of 2 k] inverse_eq_divide)








lemma pow2_add: "pow2 (a + b) = pow2 a * pow2 b"
  by (simp add: pow2_powr powr_add)

lemma pow2_mono: "a \<le> b \<Longrightarrow> pow2 a \<le> pow2 b"
  by (simp add: pow2_powr powr_mono)

lemma round_half_even_floor: "\<lfloor>x\<rfloor> \<le> round_half_even x"
  by (simp add: round_half_even_def Let_def)

lemma pow2_floor_log2:
  assumes "0 < x"
  shows "pow2 \<lfloor>log 2 x\<rfloor> \<le> x"
proof -
  have "(of_int \<lfloor>log 2 x\<rfloor> \<le> log 2 x) = (2 powr (of_int \<lfloor>log 2 x\<rfloor>) \<le> x)"
    by (rule le_log_iff) (simp_all add: assms)
  with of_int_floor_le [of "log 2 x"] have "2 powr (of_int \<lfloor>log 2 x\<rfloor>) \<le> x"
    by blast
  then show ?thesis
    by (simp only: pow2_powr)
qed

text \<open>A value from \<open>2 ^ 1024\<close> on rounds to infinity.\<close>

lemma round_double_huge:
  assumes "2 ^ 1024 \<le> x"
  shows "round_double x = PosInf"
proof -
  have p1024: "pow2 1024 = 2 ^ 1024"
    by (simp only: pow2_def) simp
  have pos: "0 < x"
    using assms by (rule less_le_trans [rotated]) simp
  define e where "e = \<lfloor>log 2 x\<rfloor>"
  have "2 powr (of_int 1024) \<le> x"
    using assms p1024 by (simp only: pow2_powr [symmetric])
  moreover have "(of_int 1024 \<le> log 2 x) = (2 powr (of_int 1024) \<le> x)"
    by (rule le_log_iff) (simp_all add: pos)
  ultimately have "of_int 1024 \<le> log 2 x"
    by blast
  then have e: "1024 \<le> e"
    unfolding e_def by (simp only: le_floor_iff)
  have "ulp_exponent x = e - 52"
    unfolding ulp_exponent_def e_def [symmetric] by (rule max_absorb1) (use e in linarith)
  moreover have "\<bar>x\<bar> = x"
    using pos by simp
  ultimately have q: "ulp_exponent \<bar>x\<bar> = e - 52"
    by simp
  have le: "pow2 e \<le> x"
    unfolding e_def by (rule pow2_floor_log2 [OF pos])
  have split: "pow2 e = pow2 52 * pow2 (e - 52)"
    using pow2_add [of 52 "e - 52"] by simp
  have p52: "pow2 52 = of_int (2 ^ 52)"
    by (simp only: pow2_def) simp
  have qpos: "0 < pow2 (e - 52)"
    by (simp add: pow2_def)
  from le split have "pow2 52 * pow2 (e - 52) \<le> x"
    by simp
  with qpos have "pow2 52 \<le> x / pow2 (e - 52)"
    by (simp add: pos_le_divide_eq)
  then have "of_int (2 ^ 52) \<le> x / pow2 (e - 52)"
    by (simp only: p52)
  then have "2 ^ 52 \<le> \<lfloor>x / pow2 (e - 52)\<rfloor>"
    by (simp only: le_floor_iff)
  with round_half_even_floor [of "x / pow2 (e - 52)"]
  have "2 ^ 52 \<le> round_half_even (x / pow2 (e - 52))"
    by linarith
  then have "(of_int (2 ^ 52) :: real) \<le> of_int (round_half_even (x / pow2 (e - 52)))"
    by (simp only: of_int_le_iff)
  then have "pow2 52 * pow2 (e - 52)
      \<le> of_int (round_half_even (x / pow2 (e - 52))) * pow2 (e - 52)"
    using qpos by (simp only: p52 mult_le_cancel_right_pos)
  then have "pow2 e \<le> of_int (round_half_even (x / pow2 (e - 52))) * pow2 (e - 52)"
    by (simp only: split)
  moreover have "pow2 1024 \<le> pow2 e"
    using e by (rule pow2_mono)
  ultimately have "2 ^ 1024 \<le> of_int (round_half_even (x / pow2 (e - 52))) * pow2 (e - 52)"
    unfolding p1024 [symmetric] by linarith
  with pos q show ?thesis
    by (simp add: round_double_def Let_def del: power_numeral)
qed

lemma round_double_1e400: "round_double (10 ^ 400) = PosInf"
proof (rule round_double_huge)
  show "(2 :: real) ^ 1024 \<le> 10 ^ 400"
    by simp
qed




subsection \<open>The tick period\<close>

lemmas float_defs = py_float_def is_ascii_def strip_def is_space_def parse_absfloat_def parse_floatnumber_def
  parse_mantissa_def parse_exponent_def digits_value_def digits_count_def is_digit_def
  digit_val_def lower_def lower_char_def negate_def




text \<open>White space is the six characters only: a leading file separator is rejected.\<close>

lemma py_float_file_separator: "py_float [CHR 0x1C, CHR ''3'', CHR ''0''] = Some (Inl ValueError)"
  by (simp add: float_defs)

text \<open>Positive text can underflow: \<^verbatim>\<open>float('1e-324')\<close> is \<open>0.0\<close>.\<close>

lemma py_float_unsigned:
  assumes "is_ascii s" and "strip s = c # cs" and "c \<noteq> CHR ''-''" and "c \<noteq> CHR ''+''"
    and "lower (c # cs) \<noteq> ''inf''" and "lower (c # cs) \<noteq> ''infinity''"
    and "lower (c # cs) \<noteq> ''nan''"
    and "parse_floatnumber (c # cs) = Some v"
  shows "py_float s = Some (Inr (round_double v))"
  using assms by (simp add: py_float_def parse_absfloat_def)


text \<open>And it can overflow: \<^verbatim>\<open>float('1e400')\<close> is infinite, and the period is \<open>0.0\<close>.\<close>

lemma py_float_1e400: "py_float ''1e400'' = Some (Inr PosInf)"
proof -
  have "parse_floatnumber ''1e400'' = Some (scale10 1 400)"
    by (simp add: parse_floatnumber_def parse_mantissa_def parse_exponent_def digits_value_def
        digits_count_def is_digit_def digit_val_def)
  moreover have "scale10 1 400 = 10 ^ 400"
  proof -
    have "(0 :: int) \<le> 400" and "nat 400 = 400"
      by simp_all
    then show ?thesis
      unfolding scale10_def by (simp only: if_True mult_1)
  qed
  ultimately have p: "parse_floatnumber ''1e400'' = Some (10 ^ 400)"
    by (simp only:)
  have "py_float ''1e400'' = Some (Inr (round_double (10 ^ 400)))"
  proof (rule py_float_unsigned [OF _ _ _ _ _ _ _ p])
    show "strip ''1e400'' = ''1e400''"
      by (simp add: strip_def is_space_def)
  qed (simp_all add: lower_def lower_char_def is_ascii_def)
  then show ?thesis
    by (simp only: round_double_1e400)
qed

lemma tick_1e400: "TICK [''BQT_TICK_RATE'' \<mapsto> ''1e400''] = Some (Inr (Fin 0))"
  by (simp add: TICK_def getenv_default_def py_float_1e400 one_over_def)


lemma py_float_ascii: "py_float s \<noteq> None \<longleftrightarrow> is_ascii s"
  by (simp add: py_float_def)




subsection \<open>Registration\<close>

lemma unregister_class_absent:
  "''QOperator'' \<notin> set (classes w) \<Longrightarrow> unregister w = (Some RuntimeError, w)"
  by (simp add: unregister_def unregister_class_def)

lemma register_class_absent:
  assumes "''QOperator'' \<notin> set (classes w)"
  shows "register w =
           (None,
            w\<lparr>classes := classes w @ [''QOperator''],
              load_post := (if ''create_global_app'' \<in> set (load_post w) then load_post w
                            else load_post w @ [''create_global_app''])\<rparr>)"
  using assms by (simp add: register_def register_class_def)

lemma register_class_present:
  "''QOperator'' \<in> set (classes w) \<Longrightarrow> register w = (Some ValueError, w)"
  by (simp add: register_def register_class_def)

text \<open>
  C4, as stated, fails: in the state where neither the class nor the handler is
  registered, \<^verbatim>\<open>unregister()\<close> raises the host's error from
  \<^verbatim>\<open>unregister_class\<close> (it is not a call without error), and a second
  \<^verbatim>\<open>register()\<close> raises the host's error from \<^verbatim>\<open>register_class\<close>: only the
  handler list is guarded by a membership check.
\<close>

theorem registration_counterexample:
  "unregister clean_world = (Some RuntimeError, clean_world)
   \<and> register (snd (register clean_world)) = (Some ValueError, snd (register clean_world))"
  by (simp add: unregister_def unregister_class_def register_def register_class_def
      clean_world_def)

text \<open>
  C4, amended. In every state where the command class is not registered:
  \<^verbatim>\<open>register()\<close> succeeds, registers the class and appends the handler only if it
  is not in the list already (so with at most one handler entry before, there is
  exactly one class entry and exactly one handler entry after); a second
  \<^verbatim>\<open>register()\<close> right after changes nothing and raises the host's \<^verbatim>\<open>ValueError\<close>
  for the class that is already registered; and \<^verbatim>\<open>unregister()\<close> changes nothing
  and raises the host's \<^verbatim>\<open>RuntimeError\<close>, whether or not the handler is in the list,
  which the module's entry block catches before it registers. In every state where
  the class is registered, \<^verbatim>\<open>register()\<close> changes nothing and raises that
  \<^verbatim>\<open>ValueError\<close>, and \<^verbatim>\<open>unregister()\<close> removes the class and removes the
  handler only if it is in the list, without error.
\<close>

theorem registration_twice:
  "(''QOperator'' \<notin> set (classes w) \<longrightarrow>
      register w =
        (None,
         w\<lparr>classes := classes w @ [''QOperator''],
           load_post := (if ''create_global_app'' \<in> set (load_post w) then load_post w
                         else load_post w @ [''create_global_app''])\<rparr>)
      \<and> count_list (classes (snd (register w))) ''QOperator'' = 1
      \<and> count_list (load_post (snd (register w))) ''create_global_app''
           = max 1 (count_list (load_post w) ''create_global_app'')
      \<and> register (snd (register w)) = (Some ValueError, snd (register w))
      \<and> unregister w = (Some RuntimeError, w)
      \<and> main_block w = register w)
   \<and> (''QOperator'' \<in> set (classes w) \<longrightarrow>
        register w = (Some ValueError, w)
        \<and> unregister w =
            (None,
             w\<lparr>classes := remove1 ''QOperator'' (classes w),
               load_post := (if ''create_global_app'' \<in> set (load_post w)
                             then remove1 ''create_global_app'' (load_post w)
                             else load_post w)\<rparr>))"
proof -
  have absent: "register w =
        (None,
         w\<lparr>classes := classes w @ [''QOperator''],
           load_post := (if ''create_global_app'' \<in> set (load_post w) then load_post w
                         else load_post w @ [''create_global_app''])\<rparr>)
      \<and> count_list (classes (snd (register w))) ''QOperator'' = 1
      \<and> count_list (load_post (snd (register w))) ''create_global_app''
           = max 1 (count_list (load_post w) ''create_global_app'')
      \<and> register (snd (register w)) = (Some ValueError, snd (register w))
      \<and> unregister w = (Some RuntimeError, w)
      \<and> main_block w = register w"
    if c: "''QOperator'' \<notin> set (classes w)"
  proof -
    note r = register_class_absent [OF c]
    have 1: "count_list (classes (snd (register w))) ''QOperator'' = 1"
      using c by (simp add: r count_list_0_iff)
    have 2: "count_list (load_post (snd (register w))) ''create_global_app''
           = max 1 (count_list (load_post w) ''create_global_app'')"
    proof (cases "''create_global_app'' \<in> set (load_post w)")
      case True
      then have "0 < count_list (load_post w) ''create_global_app''"
        by (simp add: count_list_0_iff zero_less_iff_neq_zero)
      with True show ?thesis
        by (simp add: r max_def)
    next
      case False
      then show ?thesis
        by (simp add: r count_list_0_iff)
    qed
    have 3: "register (snd (register w)) = (Some ValueError, snd (register w))"
      by (rule register_class_present) (simp add: r)
    have 4: "unregister w = (Some RuntimeError, w)"
      using c by (rule unregister_class_absent)
    have 5: "main_block w = register w"
      by (simp add: main_block_def 4)
    from r 1 2 3 4 5 show ?thesis
      by (intro conjI)
  qed
  have present: "register w = (Some ValueError, w)
        \<and> unregister w =
            (None,
             w\<lparr>classes := remove1 ''QOperator'' (classes w),
               load_post := (if ''create_global_app'' \<in> set (load_post w)
                             then remove1 ''create_global_app'' (load_post w)
                             else load_post w)\<rparr>)"
    if "''QOperator'' \<in> set (classes w)"
    using that by (simp add: register_class_present unregister_def unregister_class_def)
  from absent present show ?thesis
    by blast
qed

theorem registration_twice_witness:
  "count_list (classes (snd (register clean_world))) ''QOperator'' = 1
   \<and> count_list (load_post (snd (register clean_world))) ''create_global_app'' = 1
   \<and> count_list
        (load_post (snd (register (clean_world\<lparr>load_post := [''create_global_app'']\<rparr>))))
        ''create_global_app'' = 1
   \<and> unregister (clean_world\<lparr>load_post := [''create_global_app'']\<rparr>)
        = (Some RuntimeError, clean_world\<lparr>load_post := [''create_global_app'']\<rparr>)
   \<and> register registered_world = (Some ValueError, registered_world)
   \<and> unregister registered_world = (None, clean_world)
   \<and> unregister (clean_world\<lparr>classes := [''QOperator'']\<rparr>) = (None, clean_world)"
proof -
  have c: "''QOperator'' \<notin> set (classes clean_world)"
    by (simp add: clean_world_def)
  have d: "''QOperator'' \<notin> set (classes (clean_world\<lparr>load_post := [''create_global_app'']\<rparr>))"
    by (simp add: clean_world_def)
  have p: "''QOperator'' \<in> set (classes (clean_world\<lparr>classes := [''QOperator'']\<rparr>))"
    by (simp add: clean_world_def)
  have r: "''QOperator'' \<in> set (classes registered_world)"
    by (simp add: registered_world_def)
  note 1 = registration_twice [THEN conjunct1, rule_format, OF c]
  note 2 = registration_twice [THEN conjunct1, rule_format, OF d]
  note 3 = registration_twice [THEN conjunct2, rule_format, OF p]
  note 4 = registration_twice [THEN conjunct2, rule_format, OF r]
  from 1 2 3 4 show ?thesis
    by (simp add: clean_world_def registered_world_def)
qed

subsection \<open>The constructor\<close>

lemma set_window_geometry_fields:
  "set_window_geometry s a = Inr a' \<Longrightarrow>
     should_close a' = should_close a \<and> hwnd a' = hwnd a
     \<and> blender_widget a' = blender_widget a \<and> blender_window a' = blender_window a"
  by (auto simp: set_window_geometry_def call_widget_def Let_def
      split: sum.splits if_splits qvariant.splits)

lemma icon_loop_no_match: "no_match ps \<Longrightarrow> icon_loop ex ps f = (None, f)"
  by (induction ps) (auto simp: no_match_def split: sum.splits)

lemma platform_exclusive:
  "IS_WINDOWS p \<Longrightarrow> \<not> IS_MAC p \<and> \<not> IS_LINUX p"
  "IS_LINUX p \<Longrightarrow> \<not> IS_MAC p \<and> \<not> IS_WINDOWS p"
  by (auto simp: IS_WINDOWS_def IS_MAC_def IS_LINUX_def)

text \<open>The icon of the temporary path is never null: the path ends in a file name.\<close>

lemma temp_icon_truthy: "icon_truthy (Some (QIcon (TEMP_ICON_FILEPATH h)))"
  by (simp add: icon_truthy_def TEMP_ICON_FILEPATH_def)

lemma select_icon_windows:
  assumes "IS_WINDOWS (platform_system h)" and "no_match (processes h)"
  shows "select_icon h f = (Inr (Some (QIcon (TEMP_ICON_FILEPATH h))), f)"
  using assms platform_exclusive(1) [OF assms(1)] icon_loop_no_match [OF assms(2)]
  by (simp add: select_icon_def get_application_icon_windows_def)

text \<open>
  Whatever its outcome, the constructor leaves an application instance whose flag is
  false, and it touches neither the timers nor the host's registrations.
\<close>

lemma init_state:
  shows "qapp (snd (init h w)) \<noteq> None" and "\<not> closing (snd (init h w))"
  and "timers (snd (init h w)) = timers w" and "classes (snd (init h w)) = classes w"
  and "load_post (snd (init h w)) = load_post w"
  by (auto simp: init_def Let_def closing_def dest: set_window_geometry_fields
      split: sum.splits option.splits prod.splits if_splits)

lemma init_returns:
  assumes "init h w = (Inr a, w')"
  shows "\<not> should_close a" and "qapp w' = Some (Wrapper a)"
proof -
  from assms have q: "qapp w' = Some (Wrapper a)"
    by (auto simp: init_def Let_def split: sum.splits option.splits prod.splits if_splits)
  then show "qapp w' = Some (Wrapper a)" .
  from init_state(2) [of h w] assms q show "\<not> should_close a"
    by (simp add: closing_def)
qed

text \<open>
  With no matching process the constructor on Windows, once it has the native handle,
  keeps the file at the temporary path and sets the icon of that path as the window
  icon.
\<close>

lemma init_windows_icon:
  assumes "IS_WINDOWS (platform_system h)" and "no_match (processes h)"
    and "native_handle h = Inr n"
  shows "temp_icon_file (snd (init h w)) = temp_icon_file w"
    and "window_icon (snd (init h w)) = Some (QIcon (TEMP_ICON_FILEPATH h))"
  using assms(1,3) select_icon_windows [OF assms(1,2), of "temp_icon_file w"]
    temp_icon_truthy [of h]
  by (auto simp: init_def find_hwnd_def Let_def split: sum.splits)

text \<open>The constructor on the sample host, for any content of the temporary file.\<close>

lemma sample_host_windows: "IS_WINDOWS (platform_system sample_host)"
  by (simp add: sample_host_def IS_WINDOWS_def lower_def lower_char_def)

lemma sample_host_no_match: "no_match (processes sample_host)"
  by (simp add: sample_host_def no_match_def lower_def lower_char_def)

lemma sample_host_icon: "QIcon (TEMP_ICON_FILEPATH sample_host) = sample_icon"
  by (simp add: TEMP_ICON_FILEPATH_def sample_host_def sample_icon_def)

lemma init_sample:
  "init sample_host (clean_world\<lparr>temp_icon_file := f, classes := cs, load_post := ls\<rparr>) =
     (Inr started_app,
      clean_world\<lparr>temp_icon_file := f, classes := cs, load_post := ls,
                  window_icon := Some sample_icon,
                  qapp := Some (Wrapper started_app)\<rparr>)"
proof -
  have hw: "find_hwnd sample_host = Inr (Some 7)"
    using sample_host_windows by (simp add: find_hwnd_def) (simp add: sample_host_def)
  have ic: "select_icon sample_host g = (Inr (Some sample_icon), g)" for g
    using select_icon_windows [OF sample_host_windows sample_host_no_match, of g]
    by (simp only: sample_host_icon)
  have tr: "icon_truthy (Some sample_icon)"
    by (simp add: icon_truthy_def sample_icon_def)
  have geo: "set_window_geometry Map.empty a =
      Inr (a\<lparr>widget_calls := widget_calls a @ [SetGeometry (QRect 0 0 640 480), Show]\<rparr>)" for a
    using set_window_geometry_typed [OF empty_typed, of a]
    by (simp add: persisted_flag_def persisted_geometry_def)
  have ng: "new_widget_geometry sample_host = QRect 0 0 640 480"
    by (simp add: sample_host_def)
  show ?thesis
    using platform_exclusive(1) [OF sample_host_windows]
    by (simp add: init_def Let_def hw ic tr geo ng started_app_def clean_world_def)
qed

lemma init_sample_clean:
  "init sample_host clean_world
     = (Inr started_app,
        clean_world\<lparr>window_icon := Some sample_icon, qapp := Some (Wrapper started_app)\<rparr>)"
  using init_sample [where f = None and cs = "[]" and ls = "[]"] by (simp add: clean_world_def)

lemma init_sample_registered:
  "init sample_host registered_world
     = (Inr started_app,
        registered_world\<lparr>window_icon := Some sample_icon,
                          qapp := Some (Wrapper started_app)\<rparr>)"
  using init_sample [where f = None and cs = "[''QOperator'']"
      and ls = "[''create_global_app'']"]
  by (simp add: clean_world_def registered_world_def)

text \<open>
  On Linux the constructor stops at line 84, before it comes to the icon: the attribute
  \<^verbatim>\<open>_hwnd\<close> was never assigned. The bare wrapper stays the application instance.
\<close>

lemma init_linux:
  "IS_LINUX (platform_system h) \<Longrightarrow> init h w = (Inl AttributeError, w\<lparr>qapp := Some BareWrapper\<rparr>)"
  using platform_exclusive(2) [of "platform_system h"]
  by (simp add: init_def find_hwnd_def)

lemma linux_host_linux: "IS_LINUX (platform_system linux_host)"
  by (simp add: linux_host_def IS_LINUX_def lower_def lower_char_def)

subsection \<open>The icon on Windows\<close>

text \<open>
  C6, as stated, fails: on a host where no process matches, and with no file at the
  temporary path, the routine still returns an icon, the icon of that path, which is
  not null; the constructor sets it as the application icon.
\<close>

theorem windows_icon_set_counterexample:
  "no_match (processes sample_host)
   \<and> get_application_icon_windows sample_host None = (Inr sample_icon, None)
   \<and> icon_truthy (Some sample_icon)
   \<and> init sample_host clean_world
       = (Inr started_app,
          clean_world\<lparr>window_icon := Some sample_icon, qapp := Some (Wrapper started_app)\<rparr>)"
  using init_sample_clean
  by (simp add: sample_host_no_match get_application_icon_windows_def sample_host_icon
      icon_loop_no_match [OF sample_host_no_match] icon_truthy_def sample_icon_def)

text \<open>
  C6, amended. When the enumeration finds no matching process, the routine completes
  without error, writes nothing to the temporary path and returns the icon of the file
  named by that path, an icon that is not null whether or not such a file exists; the
  constructor, once it has the native handle, sets it as the application icon.
\<close>

theorem windows_icon_no_match:
  assumes "no_match (processes h)"
  shows "get_application_icon_windows h f = (Inr (QIcon (TEMP_ICON_FILEPATH h)), f)
    \<and> icon_truthy (Some (QIcon (TEMP_ICON_FILEPATH h)))
    \<and> (IS_WINDOWS (platform_system h) \<and> native_handle h = Inr n \<longrightarrow>
          temp_icon_file (snd (init h w)) = temp_icon_file w
          \<and> window_icon (snd (init h w)) = Some (QIcon (TEMP_ICON_FILEPATH h)))"
proof -
  have "get_application_icon_windows h f = (Inr (QIcon (TEMP_ICON_FILEPATH h)), f)"
    by (simp add: get_application_icon_windows_def icon_loop_no_match [OF assms])
  moreover have "temp_icon_file (snd (init h w)) = temp_icon_file w
      \<and> window_icon (snd (init h w)) = Some (QIcon (TEMP_ICON_FILEPATH h))"
    if "IS_WINDOWS (platform_system h) \<and> native_handle h = Inr n"
    using that init_windows_icon [OF _ assms, of n w] by simp
  ultimately show ?thesis
    using temp_icon_truthy [of h] by blast
qed

theorem windows_icon_no_match_witness:
  "get_application_icon_windows sample_host (Some (Image 5)) = (Inr sample_icon, Some (Image 5))
   \<and> icon_truthy (Some sample_icon)
   \<and> temp_icon_file (snd (init sample_host clean_world)) = temp_icon_file clean_world
   \<and> window_icon (snd (init sample_host clean_world)) = Some sample_icon"
proof -
  have p: "IS_WINDOWS (platform_system sample_host) \<and> native_handle sample_host = Inr 7"
    using sample_host_windows by (simp add: sample_host_def)
  note t = windows_icon_no_match [OF sample_host_no_match, unfolded sample_host_icon]
  note 1 = t [where f = "Some (Image 5)", THEN conjunct1]
  note 2 = t [THEN conjunct2, THEN conjunct1]
  note 3 = t [where n = 7 and w = clean_world, THEN conjunct2, THEN conjunct2, rule_format,
      OF p]
  from 1 2 3 show ?thesis
    by (intro conjI) simp_all
qed

subsection \<open>The icon on Linux\<close>

text \<open>
  C7. The Linux icon routine raises \<^verbatim>\<open>NotImplementedError\<close> whenever it is invoked;
  the constructor's icon step on Linux ends with that error, and the constructor has
  no handler: an error of the icon step is the constructor's own outcome, and on Linux
  the constructor never completes.
\<close>

theorem linux_icon_not_implemented:
  "get_application_icon_linux = Inl NotImplementedError
   \<and> (IS_LINUX (platform_system h) \<longrightarrow> select_icon h f = (Inl NotImplementedError, f))
   \<and> (find_hwnd h = Inr (Some n) \<and> fst (select_icon h (temp_icon_file w)) = Inl e
        \<longrightarrow> fst (init h w) = Inl e)
   \<and> (IS_LINUX (platform_system h) \<longrightarrow> (\<forall>r. fst (init h w) \<noteq> Inr r))"
proof -
  have "select_icon h f = (Inl NotImplementedError, f)" if "IS_LINUX (platform_system h)"
    using that platform_exclusive(2) [OF that]
    by (simp add: select_icon_def get_application_icon_linux_def)
  moreover have "fst (init h w) = Inl e"
    if "find_hwnd h = Inr (Some n) \<and> fst (select_icon h (temp_icon_file w)) = Inl e"
    using that by (cases "select_icon h (temp_icon_file w)") (simp add: init_def)
  moreover have "\<forall>r. fst (init h w) \<noteq> Inr r" if "IS_LINUX (platform_system h)"
    using init_linux [OF that, of w] by simp
  ultimately show ?thesis
    by (simp add: get_application_icon_linux_def)
qed

theorem linux_icon_not_implemented_witness:
  "select_icon linux_host None = (Inl NotImplementedError, None)
   \<and> fst (init (sample_host\<lparr>processes := [Inr ''C:/Blender/blender.exe''],
                             extract_icon := (\<lambda>_. Inl IndexError)\<rparr>) clean_world)
       = Inl IndexError
   \<and> (\<forall>r. fst (init linux_host clean_world) \<noteq> Inr r)"
proof -
  have w: "IS_WINDOWS (platform_system (sample_host\<lparr>processes := ps, extract_icon := ex\<rparr>))"
    for ps ex
    using sample_host_windows by simp
  have hw: "find_hwnd (sample_host\<lparr>processes := ps, extract_icon := ex\<rparr>) = Inr (Some 7)"
    for ps ex
    using w [where ps = ps and ex = ex] by (simp add: find_hwnd_def) (simp add: sample_host_def)
  have ic: "fst (select_icon (sample_host\<lparr>processes := [Inr ''C:/Blender/blender.exe''],
                                          extract_icon := (\<lambda>_. Inl IndexError)\<rparr>)
              (temp_icon_file clean_world)) = Inl IndexError"
    using w platform_exclusive(1) [OF w]
    by (simp add: select_icon_def get_application_icon_windows_def lower_def lower_char_def)
  note 1 = linux_icon_not_implemented [where h = linux_host and f = None, THEN conjunct2,
      THEN conjunct1, rule_format, OF linux_host_linux]
  note 2 = linux_icon_not_implemented [THEN conjunct2, THEN conjunct2, THEN conjunct1,
      rule_format, OF conjI [OF hw ic]]
  note 3 = linux_icon_not_implemented [where h = linux_host and w = clean_world,
      THEN conjunct2, THEN conjunct2, THEN conjunct2, rule_format, OF linux_host_linux]
  from 1 2 3 show ?thesis
    by blast
qed

subsection \<open>Instantiation\<close>

lemma instantiate_existing: "qapp w = Some x \<Longrightarrow> instantiate_application h w = (Inr x, w)"
  by (simp add: instantiate_application_def)

lemma execute_existing: "qapp w = Some x \<Longrightarrow> execute h w = (Inr [''PASS_THROUGH''], w)"
  by (simp add: execute_def instantiate_existing)

lemma create_global_app_existing: "qapp w = Some x \<Longrightarrow> snd (create_global_app h w) = w"
  by (simp add: create_global_app_def ops_global_app_def execute_existing)

lemma instantiate_returning:
  assumes "qapp w = None" and "init h w = (Inr a, w')"
  shows "instantiate_application h w
           = (Inr (Wrapper a), w'\<lparr>timers := timers w @ [''on_update'']\<rparr>)"
  using assms init_state(3) [of h w] by (simp add: instantiate_application_def)

lemma instantiate_raising:
  assumes "qapp w = None" and "init h w = (Inl e, w')"
  shows "instantiate_application h w = (Inl e, w')"
  using assms by (simp add: instantiate_application_def)

text \<open>After a first call there is an application instance, whatever the outcome.\<close>

lemma instantiate_leaves_instance:
  assumes "qapp w = None"
  shows "qapp (snd (instantiate_application h w)) \<noteq> None"
    and "\<not> closing (snd (instantiate_application h w))"
    and "count_list (timers (snd (instantiate_application h w))) ''on_update''
           \<le> count_list (timers w) ''on_update'' + 1"
proof -
  obtain r w' where i: "init h w = (r, w')"
    by (cases "init h w")
  from init_state [of h w] i have s: "qapp w' \<noteq> None" "\<not> closing w'" "timers w' = timers w"
    by simp_all
  show "qapp (snd (instantiate_application h w)) \<noteq> None"
    using assms i s(1) by (cases r) (simp_all add: instantiate_application_def)
  show "\<not> closing (snd (instantiate_application h w))"
    using assms i s(2) by (cases r) (simp_all add: instantiate_application_def closing_def)
  show "count_list (timers (snd (instantiate_application h w))) ''on_update''
           \<le> count_list (timers w) ''on_update'' + 1"
    using assms i s(3) by (cases r) (simp_all add: instantiate_application_def)
qed

lemma run_instantiate_existing:
  "qapp w \<noteq> None \<Longrightarrow> run dn h tick (replicate k InstantiateApplication) w = w"
  by (induction k) (auto simp: instantiate_existing)

text \<open>
  C8, as stated, fails: on Linux the constructor raises at line 84 on the first call,
  after line 73 has made the wrapper the application instance. The wrapper was
  constructed, bare, and no timer was registered; the second call finds the instance,
  returns it and registers no timer either.
\<close>

theorem instantiate_raising_counterexample:
  "instantiate_application linux_host clean_world
     = (Inl AttributeError, clean_world\<lparr>qapp := Some BareWrapper\<rparr>)
   \<and> instantiate_application linux_host (clean_world\<lparr>qapp := Some BareWrapper\<rparr>)
     = (Inr BareWrapper, clean_world\<lparr>qapp := Some BareWrapper\<rparr>)
   \<and> timers (clean_world\<lparr>qapp := Some BareWrapper\<rparr>) = []"
proof -
  have n: "qapp clean_world = None"
    by (simp add: clean_world_def)
  from instantiate_raising [OF n init_linux [OF linux_host_linux]]
  have "instantiate_application linux_host clean_world
     = (Inl AttributeError, clean_world\<lparr>qapp := Some BareWrapper\<rparr>)" .
  then show ?thesis
    by (simp add: instantiate_existing) (simp add: clean_world_def)
qed

text \<open>
  C8, amended. When an application instance exists, \<^verbatim>\<open>instantiate_application\<close>
  returns it and changes nothing: no wrapper is constructed and no timer registered.
  When none exists, the call, made directly or by the operator's \<^verbatim>\<open>execute\<close> on its
  first use, constructs the wrapper, which is the application instance from then on.
  If the constructor returns, \<^verbatim>\<open>on_update\<close> is registered once; if it raises, the
  error is the outcome of the call and no timer is registered. Either way every later
  call returns the instance that is there and changes nothing, so the timer is
  registered at most once.
\<close>

theorem instantiate_single_shot:
  "(qapp w = Some x \<longrightarrow> instantiate_application h w = (Inr x, w))
   \<and> (qapp w = None \<and> init h w = (Inr a, w') \<longrightarrow>
        instantiate_application h w
          = (Inr (Wrapper a), w'\<lparr>timers := timers w @ [''on_update'']\<rparr>)
        \<and> execute h w = (Inr [''PASS_THROUGH''], w'\<lparr>timers := timers w @ [''on_update'']\<rparr>)
        \<and> qapp w' = Some (Wrapper a))
   \<and> (qapp w = None \<and> init h w = (Inl e, w') \<longrightarrow>
        instantiate_application h w = (Inl e, w')
        \<and> execute h w = (Inl e, w')
        \<and> qapp w' \<noteq> None
        \<and> timers w' = timers w)
   \<and> (qapp w = None \<and> instantiate_application h w = (r, w1) \<longrightarrow>
        (\<exists>y. qapp w1 = Some y
              \<and> instantiate_application h w1 = (Inr y, w1)
              \<and> execute h w1 = (Inr [''PASS_THROUGH''], w1))
        \<and> run dn h tick (replicate k InstantiateApplication) w1 = w1
        \<and> count_list (timers w1) ''on_update'' \<le> count_list (timers w) ''on_update'' + 1)"
proof -
  have existing: "instantiate_application h w = (Inr x, w)" if "qapp w = Some x"
    using that by (rule instantiate_existing)
  have returning: "instantiate_application h w
          = (Inr (Wrapper a), w'\<lparr>timers := timers w @ [''on_update'']\<rparr>)
        \<and> execute h w = (Inr [''PASS_THROUGH''], w'\<lparr>timers := timers w @ [''on_update'']\<rparr>)
        \<and> qapp w' = Some (Wrapper a)"
    if "qapp w = None \<and> init h w = (Inr a, w')"
  proof -
    from that have n: "qapp w = None" and i: "init h w = (Inr a, w')"
      by simp_all
    from instantiate_returning [OF n i] init_returns(2) [OF i] show ?thesis
      by (simp add: execute_def)
  qed
  have raising: "instantiate_application h w = (Inl e, w')
        \<and> execute h w = (Inl e, w')
        \<and> qapp w' \<noteq> None
        \<and> timers w' = timers w"
    if "qapp w = None \<and> init h w = (Inl e, w')"
  proof -
    from that have n: "qapp w = None" and i: "init h w = (Inl e, w')"
      by simp_all
    from instantiate_raising [OF n i] init_state(1,3) [of h w] i show ?thesis
      by (simp add: execute_def)
  qed
  have later: "(\<exists>y. qapp w1 = Some y
              \<and> instantiate_application h w1 = (Inr y, w1)
              \<and> execute h w1 = (Inr [''PASS_THROUGH''], w1))
        \<and> run dn h tick (replicate k InstantiateApplication) w1 = w1
        \<and> count_list (timers w1) ''on_update'' \<le> count_list (timers w) ''on_update'' + 1"
    if "qapp w = None \<and> instantiate_application h w = (r, w1)"
  proof -
    from that have n: "qapp w = None" and i: "instantiate_application h w = (r, w1)"
      by simp_all
    from instantiate_leaves_instance(1,3) [OF n, of h] i
    have q: "qapp w1 \<noteq> None"
      and c: "count_list (timers w1) ''on_update'' \<le> count_list (timers w) ''on_update'' + 1"
      by simp_all
    from q obtain y where y: "qapp w1 = Some y"
      by blast
    from y instantiate_existing [OF y, of h] execute_existing [OF y, of h]
    have "\<exists>y. qapp w1 = Some y
              \<and> instantiate_application h w1 = (Inr y, w1)
              \<and> execute h w1 = (Inr [''PASS_THROUGH''], w1)"
      by blast
    with run_instantiate_existing [OF q, of dn h tick k] c show ?thesis
      by blast
  qed
  from existing returning raising later show ?thesis
    by blast
qed

theorem instantiate_single_shot_witness:
  "instantiate_application sample_host clean_world
     = (Inr (Wrapper started_app),
        clean_world\<lparr>window_icon := Some sample_icon, qapp := Some (Wrapper started_app),
                    timers := timers clean_world @ [''on_update'']\<rparr>)
   \<and> instantiate_application linux_host clean_world
     = (Inl AttributeError, clean_world\<lparr>qapp := Some BareWrapper\<rparr>)
   \<and> instantiate_application sample_host (clean_world\<lparr>qapp := Some ForeignApplication\<rparr>)
     = (Inr ForeignApplication, clean_world\<lparr>qapp := Some ForeignApplication\<rparr>)
   \<and> run (\<lambda>_ _. True) linux_host (Fin 1) (replicate 3 InstantiateApplication)
        (clean_world\<lparr>qapp := Some BareWrapper\<rparr>)
     = clean_world\<lparr>qapp := Some BareWrapper\<rparr>"
proof -
  have n: "qapp clean_world = None"
    by (simp add: clean_world_def)
  have f: "qapp (clean_world\<lparr>qapp := Some ForeignApplication\<rparr>) = Some ForeignApplication"
    by simp
  note 1 = instantiate_single_shot [THEN conjunct2, THEN conjunct1, rule_format,
      OF conjI [OF n init_sample_clean], THEN conjunct1]
  note 2 = instantiate_single_shot [THEN conjunct2, THEN conjunct2, THEN conjunct1,
      rule_format, OF conjI [OF n init_linux [OF linux_host_linux]], THEN conjunct1]
  note 3 = instantiate_single_shot [where h = sample_host, THEN conjunct1, rule_format, OF f]
  note 4 = instantiate_single_shot [where dn = "\<lambda>_ _. True" and tick = "Fin 1" and k = 3,
      THEN conjunct2, THEN conjunct2, THEN conjunct2, rule_format, OF conjI [OF n 2],
      THEN conjunct2, THEN conjunct1]
  from 1 2 3 4 show ?thesis
    by (intro conjI)
qed

subsection \<open>The flag \<open>should_close\<close>\<close>

lemma closing_step: "closing w \<Longrightarrow> closing (step dn h tick x w)"
proof (cases x)
  case (Notify r e)
  assume "closing w"
  then show ?thesis
    by (auto simp: Notify closing_def with_wrapper_def notify_def
        split: option.splits qapplication.splits)
next
  case (FocusObjectChanged obj)
  assume "closing w"
  then show ?thesis
    by (auto simp: FocusObjectChanged closing_def with_wrapper_def on_focus_object_changed_def
        split: option.splits qapplication.splits sum.splits if_splits)
next
  case SetWindowGeometry
  assume "closing w"
  then show ?thesis
    by (auto simp: SetWindowGeometry closing_def with_wrapper_def
        dest: set_window_geometry_fields
        split: option.splits qapplication.splits sum.splits)
next
  case StoreWindowGeometry
  assume "closing w"
  then show ?thesis
    by (auto simp: StoreWindowGeometry closing_def with_wrapper_def
        split: option.splits qapplication.splits)
next
  case Execute
  assume "closing w"
  then show ?thesis
    by (auto simp: Execute closing_def execute_existing
        split: option.splits qapplication.splits)
next
  case InstantiateApplication
  assume "closing w"
  then show ?thesis
    by (auto simp: InstantiateApplication closing_def instantiate_existing
        split: option.splits qapplication.splits)
next
  case OnUpdate
  assume "closing w"
  then show ?thesis
    by (auto simp: OnUpdate closing_def on_update_def
        split: option.splits qapplication.splits list.splits)
next
  case CreateGlobalApp
  assume "closing w"
  then show ?thesis
    by (auto simp: CreateGlobalApp closing_def create_global_app_existing
        split: option.splits qapplication.splits)
next
  case Register
  assume "closing w"
  then show ?thesis
    by (auto simp: Register closing_def register_def register_class_def
        split: option.splits qapplication.splits)
next
  case Unregister
  assume "closing w"
  then show ?thesis
    by (auto simp: Unregister closing_def unregister_def unregister_class_def
        split: option.splits qapplication.splits)
next
  case OnExit
  assume "closing w"
  then show ?thesis
    by (auto simp: OnExit closing_def onexit_def
        split: option.splits qapplication.splits)
next
  case (WidgetChanged g m f)
  assume "closing w"
  then show ?thesis
    by (auto simp: WidgetChanged closing_def with_wrapper_def
        split: option.splits qapplication.splits)
qed

lemma closing_run: "closing w \<Longrightarrow> closing (run dn h tick xs w)"
  by (induction xs arbitrary: w) (auto intro: closing_step)

text \<open>A call that constructs the wrapper leaves the flag false.\<close>

lemma execute_not_closing:
  assumes "qapp w = None"
  shows "\<not> closing (snd (execute h w))"
  using instantiate_leaves_instance(2) [OF assms, of h]
  by (cases "instantiate_application h w") (auto simp: execute_def split: sum.splits)

lemma create_global_app_not_closing:
  assumes "qapp w = None"
  shows "\<not> closing (snd (create_global_app h w))"
proof -
  have "\<not> closing w"
    using assms by (simp add: closing_def)
  with execute_not_closing [OF assms, of h] show ?thesis
    by (cases "execute h w")
      (auto simp: create_global_app_def ops_global_app_def split: sum.splits)
qed

lemma closing_set_only_by_close:
  assumes "\<not> closing w" and "closing (step dn h tick x w)"
  shows "\<exists>r e a. x = Notify r e \<and> qapp w = Some (Wrapper a) \<and> is_close_event e
           \<and> (r = blender_widget a \<or> r = blender_window a)"
proof (cases x)
  case (Notify r e)
  with assms show ?thesis
    by (auto simp: closing_def with_wrapper_def notify_def
        split: option.splits qapplication.splits if_splits)
next
  case (FocusObjectChanged obj)
  with assms show ?thesis
    by (auto simp: closing_def with_wrapper_def on_focus_object_changed_def
        split: option.splits qapplication.splits sum.splits if_splits)
next
  case SetWindowGeometry
  with assms show ?thesis
    by (auto simp: closing_def with_wrapper_def dest: set_window_geometry_fields
        split: option.splits qapplication.splits sum.splits)
next
  case StoreWindowGeometry
  with assms show ?thesis
    by (auto simp: closing_def with_wrapper_def split: option.splits qapplication.splits)
next
  case Execute
  show ?thesis
  proof (cases "qapp w")
    case None
    from execute_not_closing [OF None, of h] assms(2) show ?thesis
      by (simp add: Execute)
  next
    case (Some y)
    with assms show ?thesis
      by (simp add: Execute execute_existing)
  qed
next
  case InstantiateApplication
  show ?thesis
  proof (cases "qapp w")
    case None
    from instantiate_leaves_instance(2) [OF None, of h] assms(2) show ?thesis
      by (simp add: InstantiateApplication)
  next
    case (Some y)
    with assms show ?thesis
      by (simp add: InstantiateApplication instantiate_existing)
  qed
next
  case OnUpdate
  with assms show ?thesis
    by (auto simp: closing_def on_update_def
        split: option.splits qapplication.splits list.splits if_splits)
next
  case CreateGlobalApp
  show ?thesis
  proof (cases "qapp w")
    case None
    from create_global_app_not_closing [OF None, of h] assms(2) show ?thesis
      by (simp add: CreateGlobalApp)
  next
    case (Some y)
    with assms show ?thesis
      by (simp add: CreateGlobalApp create_global_app_existing)
  qed
next
  case Register
  with assms show ?thesis
    by (auto simp: closing_def register_def register_class_def
        split: option.splits qapplication.splits if_splits)
next
  case Unregister
  with assms show ?thesis
    by (auto simp: closing_def unregister_def unregister_class_def
        split: option.splits qapplication.splits if_splits)
next
  case OnExit
  with assms show ?thesis
    by (auto simp: closing_def onexit_def split: option.splits qapplication.splits)
next
  case (WidgetChanged g m f)
  with assms show ?thesis
    by (auto simp: closing_def with_wrapper_def split: option.splits qapplication.splits)
qed

text \<open>
  C9. The constructor leaves \<open>should_close\<close> false, whether it returns or raises.
  Whatever is called afterwards, once the flag is true it is true after the call, and
  so after any sequence of calls. The flag goes from false to true by one call only:
  \<^verbatim>\<open>notify\<close> with a close event for the container widget or the wrapped window.
\<close>

theorem should_close_monotone:
  "(init h w = (Inr a, w') \<longrightarrow> \<not> should_close a)
   \<and> \<not> closing (snd (init h w))
   \<and> (closing w \<longrightarrow> closing (step dn h tick x w))
   \<and> (closing w \<longrightarrow> closing (run dn h tick xs w))
   \<and> (\<not> closing w \<and> closing (step dn h tick x w) \<longrightarrow>
        (\<exists>r e b. x = Notify r e \<and> qapp w = Some (Wrapper b) \<and> is_close_event e
           \<and> (r = blender_widget b \<or> r = blender_window b)))"
  using init_returns(1) [of h w a w'] init_state(2) [of h w] closing_step [of w dn h tick x]
    closing_run [of w dn h tick xs] closing_set_only_by_close [of w dn h tick x]
  by blast

theorem should_close_monotone_witness:
  "\<not> should_close started_app
   \<and> closing (run (\<lambda>_ _. True) sample_host (Fin (1 / 30))
        [OnUpdate, Notify (OtherObject 3) close_event, SetWindowGeometry, WidgetChanged
           (QRect 1 2 3 4) False False, InstantiateApplication, OnExit]
        (step (\<lambda>_ _. True) sample_host (Fin (1 / 30))
           (Notify (WindowContainer (WindowFromWinId 7)) close_event)
           (clean_world\<lparr>qapp := Some (Wrapper started_app)\<rparr>)))"
proof -
  have c: "closing (step (\<lambda>_ _. True) sample_host (Fin (1 / 30))
        (Notify (WindowContainer (WindowFromWinId 7)) close_event)
        (clean_world\<lparr>qapp := Some (Wrapper started_app)\<rparr>))"
    by (simp add: with_wrapper_def notify_def closing_def clean_world_def started_app_def
        close_event_def)
  note fresh = should_close_monotone [where h = sample_host and w = clean_world,
      THEN conjunct1, rule_format, OF init_sample_clean]
  note later = should_close_monotone [where h = sample_host and dn = "\<lambda>_ _. True"
      and tick = "Fin (1 / 30)"
      and xs = "[OnUpdate, Notify (OtherObject 3) close_event, SetWindowGeometry,
           WidgetChanged (QRect 1 2 3 4) False False, InstantiateApplication, OnExit]",
      THEN conjunct2, THEN conjunct2, THEN conjunct2, THEN conjunct1, rule_format, OF c]
  from fresh later show ?thesis
    by (rule conjI)
qed

subsection \<open>The startup hook\<close>

lemma ops_global_app_registered:
  assumes "''QOperator'' \<in> set (classes w)"
  shows "snd (ops_global_app h w) = snd (instantiate_application h w)"
    and "fst (ops_global_app h w) =
           (case fst (instantiate_application h w) of Inl _ \<Rightarrow> Some RuntimeError
                                                     | Inr _ \<Rightarrow> None)"
  using assms
  by (cases "instantiate_application h w"; auto simp: ops_global_app_def execute_def
      split: sum.splits)+

text \<open>
  C10, as stated, fails: after \<^verbatim>\<open>register()\<close>, with the module under a
  \<^verbatim>\<open>startup\<close> directory and \<^verbatim>\<open>BQT_DISABLE_STARTUP\<close> set, to the empty string,
  the hook does instantiate the application.
\<close>

theorem startup_hook_counterexample:
  "environ sample_host ''BQT_DISABLE_STARTUP'' = Some []
   \<and> contains (module_file sample_host) ''startup''
   \<and> ''QOperator'' \<in> set (classes registered_world)
   \<and> qapp registered_world = None
   \<and> create_global_app sample_host registered_world
       = (None,
          registered_world\<lparr>window_icon := Some sample_icon,
                            qapp := Some (Wrapper started_app),
                            timers := [''on_update'']\<rparr>)"
proof -
  have e: "environ sample_host ''BQT_DISABLE_STARTUP'' = Some []"
    by (simp add: sample_host_def)
  have c: "contains (module_file sample_host) ''startup''"
    by (simp add: sample_host_def)
  have r: "''QOperator'' \<in> set (classes registered_world)"
    by (simp add: registered_world_def)
  have n: "qapp registered_world = None"
    by (simp add: registered_world_def clean_world_def)
  have t: "timers registered_world = []"
    by (simp add: registered_world_def clean_world_def)
  have "create_global_app sample_host registered_world
       = (None,
          registered_world\<lparr>window_icon := Some sample_icon,
                            qapp := Some (Wrapper started_app),
                            timers := [''on_update'']\<rparr>)"
    by (simp add: create_global_app_def ops_global_app_def e c r getenv_def truthy_def
        execute_def instantiate_returning [OF n init_sample_registered] t)
  with e c r n show ?thesis
    by (intro conjI)
qed

text \<open>
  C10, amended. The hook instantiates the application, or changes anything at all,
  only when the module's file path contains \<^verbatim>\<open>startup\<close> and the disable variable is
  unset or empty; when the path does not contain \<^verbatim>\<open>startup\<close> the hook does nothing,
  also when the disable variable is absent, and it does nothing when the variable
  holds any non-empty text. When both conditions hold the hook calls the operator:
  with the operator registered that is the instantiation, an error in it reported as
  \<^verbatim>\<open>RuntimeError\<close>; with the operator not registered the call raises
  \<^verbatim>\<open>AttributeError\<close> and nothing is instantiated.
\<close>

theorem startup_hook_guard:
  "(\<not> contains (module_file h) ''startup'' \<longrightarrow> create_global_app h w = (None, w))
   \<and> (truthy (getenv (environ h) ''BQT_DISABLE_STARTUP'') \<longrightarrow> create_global_app h w = (None, w))
   \<and> (snd (create_global_app h w) \<noteq> w \<longrightarrow>
        contains (module_file h) ''startup''
        \<and> (environ h ''BQT_DISABLE_STARTUP'' = None \<or> environ h ''BQT_DISABLE_STARTUP'' = Some []))
   \<and> (contains (module_file h) ''startup''
        \<and> (environ h ''BQT_DISABLE_STARTUP'' = None \<or> environ h ''BQT_DISABLE_STARTUP'' = Some [])
        \<and> ''QOperator'' \<in> set (classes w) \<longrightarrow>
          snd (create_global_app h w) = snd (instantiate_application h w)
          \<and> fst (create_global_app h w) =
               (case fst (instantiate_application h w) of Inl _ \<Rightarrow> Some RuntimeError
                                                         | Inr _ \<Rightarrow> None))
   \<and> (contains (module_file h) ''startup''
        \<and> (environ h ''BQT_DISABLE_STARTUP'' = None \<or> environ h ''BQT_DISABLE_STARTUP'' = Some [])
        \<and> ''QOperator'' \<notin> set (classes w) \<longrightarrow>
          create_global_app h w = (Some AttributeError, w))"
proof -
  have off1: "create_global_app h w = (None, w)" if "\<not> contains (module_file h) ''startup''"
    using that by (simp add: create_global_app_def)
  have off2: "create_global_app h w = (None, w)"
    if "truthy (getenv (environ h) ''BQT_DISABLE_STARTUP'')"
    using that by (simp add: create_global_app_def)
  have only: "contains (module_file h) ''startup''
        \<and> (environ h ''BQT_DISABLE_STARTUP'' = None \<or> environ h ''BQT_DISABLE_STARTUP'' = Some [])"
    if "snd (create_global_app h w) \<noteq> w"
    using that
    by (auto simp: create_global_app_def truthy_def getenv_def split: if_splits option.splits)
  have on: "create_global_app h w = ops_global_app h w"
    if "contains (module_file h) ''startup''"
      and "environ h ''BQT_DISABLE_STARTUP'' = None \<or> environ h ''BQT_DISABLE_STARTUP'' = Some []"
    using that by (auto simp: create_global_app_def truthy_def getenv_def)
  have registered: "snd (create_global_app h w) = snd (instantiate_application h w)
          \<and> fst (create_global_app h w) =
               (case fst (instantiate_application h w) of Inl _ \<Rightarrow> Some RuntimeError
                                                         | Inr _ \<Rightarrow> None)"
    if "contains (module_file h) ''startup''
        \<and> (environ h ''BQT_DISABLE_STARTUP'' = None \<or> environ h ''BQT_DISABLE_STARTUP'' = Some [])
        \<and> ''QOperator'' \<in> set (classes w)"
    using that on ops_global_app_registered [of w h] by simp
  have unregistered: "create_global_app h w = (Some AttributeError, w)"
    if "contains (module_file h) ''startup''
        \<and> (environ h ''BQT_DISABLE_STARTUP'' = None \<or> environ h ''BQT_DISABLE_STARTUP'' = Some [])
        \<and> ''QOperator'' \<notin> set (classes w)"
    using that on by (simp add: ops_global_app_def)
  from off1 off2 only registered unregistered show ?thesis
    by blast
qed

theorem startup_hook_guard_witness:
  "create_global_app (sample_host\<lparr>module_file := ''/scripts/addons/bqt.py'', environ := Map.empty\<rparr>)
       registered_world = (None, registered_world)
   \<and> create_global_app (sample_host\<lparr>environ := [''BQT_DISABLE_STARTUP'' \<mapsto> ''1'']\<rparr>)
       registered_world = (None, registered_world)
   \<and> snd (create_global_app sample_host registered_world)
       = snd (instantiate_application sample_host registered_world)
   \<and> create_global_app sample_host clean_world = (Some AttributeError, clean_world)"
proof -
  have a: "\<not> contains (module_file (sample_host\<lparr>module_file := ''/scripts/addons/bqt.py'',
      environ := Map.empty\<rparr>)) ''startup''"
    by simp
  have b: "truthy (getenv (environ (sample_host\<lparr>environ := [''BQT_DISABLE_STARTUP'' \<mapsto> ''1'']\<rparr>))
      ''BQT_DISABLE_STARTUP'')"
    by (simp add: truthy_def getenv_def)
  have c: "contains (module_file sample_host) ''startup''
      \<and> (environ sample_host ''BQT_DISABLE_STARTUP'' = None
         \<or> environ sample_host ''BQT_DISABLE_STARTUP'' = Some [])
      \<and> ''QOperator'' \<in> set (classes registered_world)"
    by (simp add: sample_host_def registered_world_def)
  have d: "contains (module_file sample_host) ''startup''
      \<and> (environ sample_host ''BQT_DISABLE_STARTUP'' = None
         \<or> environ sample_host ''BQT_DISABLE_STARTUP'' = Some [])
      \<and> ''QOperator'' \<notin> set (classes clean_world)"
    by (simp add: sample_host_def clean_world_def)
  note 1 = startup_hook_guard [where w = registered_world, THEN conjunct1, rule_format, OF a]
  note 2 = startup_hook_guard [where w = registered_world, THEN conjunct2, THEN conjunct1,
      rule_format, OF b]
  note 3 = startup_hook_guard [THEN conjunct2, THEN conjunct2, THEN conjunct2, THEN conjunct1,
      rule_format, OF c, THEN conjunct1]
  note 4 = startup_hook_guard [THEN conjunct2, THEN conjunct2, THEN conjunct2, THEN conjunct2,
      rule_format, OF d]
  from 1 2 3 4 show ?thesis
    by (intro conjI)
qed

end
